theory Spec2Isabelle
  imports Main "HOL-Library.Word" "HOL-Library.Signed_Division"
begin

unbundle bit_operations_syntax

section \<open>ArtNet output (src/channeloutput/ArtNet.cpp)\<close>

text \<open>
  C++ \<open>int\<close> values are modelled as \<open>int\<close>. Where a result is handed out as a 32-bit
  \<open>int\<close> or a \<open>size_t\<close>, the wrap-around of the compiled code is written out:
  \<open>int32\<close> is the two's complement value of the low 32 bits (signed overflow is
  undefined behaviour in the source; the machine's \<open>int\<close> arithmetic wraps), and
  \<open>size_t\<close> the conversion of an \<open>int\<close> to the unsigned 64-bit type. C++ \<open>/\<close> and
  \<open>%\<close> truncate towards zero, so they are \<open>sdiv\<close> and \<open>smod\<close>. Bytes
  (\<open>char\<close>, \<open>unsigned char\<close>) are \<open>8 word\<close>; the cast \<open>(char)e\<close> is
  \<open>word_of_int e\<close>.
\<close>

type_synonym byte = "8 word"

definition int32 :: "int \<Rightarrow> int" where
  "int32 k = (k + 2147483648) mod 4294967296 - 2147483648"

definition in_int32 :: "int \<Rightarrow> bool" where
  "in_int32 k = (- 2147483648 \<le> k \<and> k \<le> 2147483647)"

definition size_t :: "int \<Rightarrow> int" where
  "size_t k = k mod 18446744073709551616"

definition ARTNET_HEADER_LENGTH :: int where "ARTNET_HEADER_LENGTH = 18"

definition ARTNET_SYNC_PACKET_LENGTH :: int where "ARTNET_SYNC_PACKET_LENGTH = 14"

definition ARTNET_DEST_PORT :: int where "ARTNET_DEST_PORT = 6454"

definition ARTNET_SEQUENCE_INDEX :: nat where "ARTNET_SEQUENCE_INDEX = 12"

definition ARTNET_UNIVERSE_INDEX :: nat where "ARTNET_UNIVERSE_INDEX = 14"

definition ARTNET_LENGTH_INDEX :: nat where "ARTNET_LENGTH_INDEX = 16"

definition ARTNET_TYPE_BROADCAST :: int where "ARTNET_TYPE_BROADCAST = 2"

definition ARTNET_TYPE_UNICAST :: int where "ARTNET_TYPE_UNICAST = 3"

definition ArtNetHeader :: "byte list" where
  "ArtNetHeader =
     [0x41, 0x72, 0x74, 0x2D, 0x4E, 0x65, 0x74, 0x00,
      0x00, 0x50, 0x00, 0x0E, 0x00, 0x00, 0x00, 0x00, 0x00, 0x00]"

definition ArtNetSyncPacket :: "byte list" where
  "ArtNetSyncPacket =
     [0x41, 0x72, 0x74, 0x2D, 0x4E, 0x65, 0x74, 0x00,
      0x00, 0x52, 0x00, 0x0E, 0x00, 0x00]"

text \<open>
  Pointers that the code compares or stores are values of small datatypes. A sink object
  is identified by its address (\<open>this\<close>, a natural number); \<open>&anIovecs[i]\<close> of the sink
  at address \<open>a\<close> is \<open>anIovecs_at a i\<close>, and the file-static \<open>&ArtNetSyncIovecs\<close> is a
  constructor of its own, so the pointer comparison of \<open>PostPrepareData\<close> is equality.
\<close>

datatype buf_ptr =
    nullptr
  | anHeaders_at nat nat
  | channelData_at int
  | ArtNetSyncPacket_ptr

datatype iov_ptr = ArtNetSyncIovecs_ptr | anIovecs_at nat nat

datatype name_ptr = no_name | ArtNetSyncAddress_ptr | anAddress_of nat

record iovec =
  iov_base :: buf_ptr
  iov_len :: int

record mmsghdr =
  msg_name :: name_ptr
  msg_namelen :: int
  msg_iov :: iov_ptr
  msg_iovlen :: int
  msg_len :: int

definition ArtNetSyncIovecs :: iovec where
  "ArtNetSyncIovecs = \<lparr>iov_base = ArtNetSyncPacket_ptr, iov_len = ARTNET_SYNC_PACKET_LENGTH\<rparr>"

definition sizeof_sockaddr_in :: int where "sizeof_sockaddr_in = 16"

text \<open>
  Modelled from the spec: \<open>UDPOutputMessages\<close> (UDPOutput.h is not among the sources).
  The spec's MessageBatch is "a mapping from destination port number to an ordered
  sequence of pending outbound datagrams for the current tick", with one socket per
  port. \<open>msgs[port]\<close> is \<open>messages b port\<close> (an absent port holds the empty sequence, as
  \<open>operator[]\<close> creates it), \<open>GetSocket\<close> answers -1 for a port without a socket.
\<close>

record UDPOutputMessages =
  messages :: "int \<Rightarrow> mmsghdr list"
  sockets :: "int \<Rightarrow> int option"

definition GetSocket :: "UDPOutputMessages \<Rightarrow> int \<Rightarrow> int" where
  "GetSocket b port = (case sockets b port of None \<Rightarrow> -1 | Some s \<Rightarrow> s)"

definition ForceSocket :: "int \<Rightarrow> int \<Rightarrow> UDPOutputMessages \<Rightarrow> UDPOutputMessages" where
  "ForceSocket port s b = b\<lparr>sockets := (sockets b)(port \<mapsto> s)\<rparr>"

text \<open>
  The members of the base class \<open>UDPOutputData\<close> that this file reads and writes. The
  base class constructor is not among the sources, so the constructor below takes the
  base object as it leaves \<open>UDPOutputData(config)\<close>.
\<close>

record UDPOutputData =
  description :: string
  active :: bool
  valid :: bool
  startChannel :: int
  channelCount :: int
  type :: int
  ipAddress :: string
  skippedFrames :: int
  lastData :: "byte list option"

record sockaddr_in =
  sin_port :: int
  sin_addr :: "32 word"

text \<open>
  The members \<open>ArtNetOutputData\<close> adds. ArtNet.h is not among the sources;
  \<open>sequenceNumber\<close> is taken to be the one-byte counter that the test of line 197 for
  a wrap to 0 presupposes and that the header's sequence byte receives. \<open>this\<close> is
  the address of the object.
\<close>

record ArtNetOutputData = UDPOutputData +
  this :: nat
  universe :: int
  universeCount :: int
  priority :: int
  sequenceNumber :: byte
  anAddress :: sockaddr_in
  anIovecs :: "iovec list"
  anHeaders :: "byte list list"

text \<open>The keys of the JSON configuration the constructor reads.\<close>

record ArtNetConfig =
  cfg_id :: int
  cfg_priority :: int
  cfg_universeCount :: "int option"
  cfg_address :: string

definition INADDR_BROADCAST :: "32 word" where "INADDR_BROADCAST = 0xFFFFFFFF"

text \<open>
  The constructor's loop for universe \<open>x\<close> (lines 126-147): \<open>universe_header\<close> is the
  header buffer after lines 130-138, \<open>build_universe\<close> stores it and fills the two iovecs.
\<close>

definition universe_header :: "int \<Rightarrow> int \<Rightarrow> nat \<Rightarrow> byte list" where
  "universe_header u0 cc x =
     (let anBuffer = ArtNetHeader;
          uni = u0 + int x;
          anBuffer = anBuffer[ARTNET_UNIVERSE_INDEX := word_of_int (uni smod 256)];
          anBuffer = anBuffer[ARTNET_UNIVERSE_INDEX + 1 := word_of_int (uni sdiv 256)];
          anBuffer = anBuffer[ARTNET_LENGTH_INDEX := word_of_int (cc sdiv 256)];
          anBuffer = anBuffer[ARTNET_LENGTH_INDEX + 1 := word_of_int (cc smod 256)]
      in anBuffer)"

definition build_universe ::
  "nat \<Rightarrow> int \<Rightarrow> int \<Rightarrow> nat \<Rightarrow> byte list list \<times> iovec list \<Rightarrow> byte list list \<times> iovec list" where
  "build_universe self u0 cc x st =
     (let hs = (fst st)[x := universe_header u0 cc x];
          iovs = (snd st)[x * 2 := \<lparr>iov_base = anHeaders_at self x, iov_len = ARTNET_HEADER_LENGTH\<rparr>];
          iovs = iovs[x * 2 + 1 := \<lparr>iov_base = nullptr, iov_len = size_t cc\<rparr>]
      in (hs, iovs))"

text \<open>
  The constructor. \<open>toInetAddr\<close> (util code, not among the sources) is a parameter: it
  takes the host string and the current \<open>valid\<close> flag, which it receives by reference,
  and answers the address and the flag as it leaves it. The result carries the warnings
  handed to \<open>WarningHolder::AddWarning\<close>.
\<close>

definition ArtNetOutputData ::
  "nat \<Rightarrow> (string \<Rightarrow> bool \<Rightarrow> 32 word \<times> bool) \<Rightarrow> UDPOutputData \<Rightarrow> ArtNetConfig
     \<Rightarrow> ArtNetOutputData \<times> string list" where
  "ArtNetOutputData self toInetAddr base config =
     (let uc = (case cfg_universeCount config of None \<Rightarrow> 1 | Some n \<Rightarrow> n);
          uc = (if uc < 1 then 1 else uc);
          ip = (if type base = ARTNET_TYPE_BROADCAST then ''''
                else if type base = 3 then cfg_address config
                else ipAddress base);
          resolved = toInetAddr ip (valid base);
          broadcast = (type base = ARTNET_TYPE_BROADCAST);
          addr = (if broadcast then INADDR_BROADCAST else fst resolved);
          vld = (if broadcast then valid base else snd resolved);
          warn = (\<not> broadcast \<and> \<not> vld \<and> active base);
          act = (if warn then False else active base);
          built = fold (build_universe self (cfg_id config) (channelCount base))
                    [0..<nat uc]
                    (replicate (nat uc) [], replicate (nat (uc * 2)) \<lparr>iov_base = nullptr, iov_len = 0\<rparr>)
      in (UDPOutputData.extend (base\<lparr>ipAddress := ip, valid := vld, active := act\<rparr>)
            (ArtNetOutputData.fields self (cfg_id config) uc (cfg_priority config) 1
               \<lparr>sin_port = ARTNET_DEST_PORT, sin_addr = addr\<rparr> (snd built) (fst built)),
          if warn then [''Could not resolve host name '' @ ip @ '' - disabling output''] else []))"

definition IsPingable :: "ArtNetOutputData \<Rightarrow> bool" where
  "IsPingable s = (type s = ARTNET_TYPE_UNICAST)"

text \<open>
  \<open>GetRequiredChannelRange\<close>, lines 229-232: the two results leave through \<open>int&\<close>
  parameters, and every operation on the way is a 32-bit \<open>int\<close> operation.
\<close>

definition GetRequiredChannelRange :: "ArtNetOutputData \<Rightarrow> int \<times> int" where
  "GetRequiredChannelRange s =
     (int32 (startChannel s - 1),
      int32 (int32 (startChannel s + int32 (channelCount s * universeCount s)) - 1))"

text \<open>
  Modelled from the spec: \<open>UDPOutputData::NeedToOutputFrame\<close> and
  \<open>UDPOutputData::SaveFrame\<close> (UDPOutput.cpp is not among the sources). The spec's
  FrameSnapshot is "the most recently transmitted copy of a sink's required byte range",
  "created empty at sink start"; a universe is sent when its byte range of the buffer is
  "changed (or no snapshot yet)" against "the stored FrameSnapshot range for that
  universe", and saving a frame is to "copy the full transmitted byte range into the
  FrameSnapshot". \<open>lastData = None\<close> is the empty snapshot.
\<close>

definition byte_range :: "byte list \<Rightarrow> int \<Rightarrow> int \<Rightarrow> byte list" where
  "byte_range buf off len = take (nat len) (drop (nat off) buf)"

definition NeedToOutputFrame ::
  "('a UDPOutputData_scheme) \<Rightarrow> byte list \<Rightarrow> int \<Rightarrow> int \<Rightarrow> int \<Rightarrow> bool" where
  "NeedToOutputFrame s channelData startChan savedIdx count =
     (case lastData s of
        None \<Rightarrow> True
      | Some snap \<Rightarrow> byte_range channelData (startChan + savedIdx) count \<noteq> byte_range snap savedIdx count)"

definition SaveFrame ::
  "byte list \<Rightarrow> int \<Rightarrow> ('a UDPOutputData_scheme) \<Rightarrow> ('a UDPOutputData_scheme)" where
  "SaveFrame data len s = s\<lparr>lastData := Some (byte_range data 0 len)\<rparr>"

text \<open>
  \<open>PrepareData\<close>, lines 160-207. The locals of the loop and the objects it mutates
  (the port's message vector, the headers and the iovecs of the sink) travel in a record;
  \<open>PrepareData_universe\<close> is the loop body for universe \<open>x\<close>.
\<close>

record prepare_loop =
  l_msgs :: "mmsghdr list"
  l_anHeaders :: "byte list list"
  l_anIovecs :: "iovec list"
  l_cur :: int
  l_start :: int
  l_skipped :: bool
  l_allSkipped :: bool

definition PrepareData_universe ::
  "ArtNetOutputData \<Rightarrow> byte list \<Rightarrow> nat \<Rightarrow> prepare_loop \<Rightarrow> prepare_loop" where
  "PrepareData_universe s channelData x l =
     (let l = (if NeedToOutputFrame s channelData (startChannel s - 1) (l_start l) (channelCount s)
               then
                 (let msg = \<lparr>msg_name = anAddress_of (this s),
                             msg_namelen = sizeof_sockaddr_in,
                             msg_iov = anIovecs_at (this s) (x * 2),
                             msg_iovlen = 2,
                             msg_len = channelCount s + ARTNET_HEADER_LENGTH\<rparr>
                  in l\<lparr>l_msgs := l_msgs l @ [msg],
                       l_anHeaders := (l_anHeaders l)
                          [x := (l_anHeaders l ! x)[ARTNET_SEQUENCE_INDEX := sequenceNumber s]],
                       l_anIovecs := (l_anIovecs l)
                          [x * 2 + 1 := (l_anIovecs l ! (x * 2 + 1))\<lparr>iov_base := channelData_at (l_cur l)\<rparr>],
                       l_allSkipped := False\<rparr>)
               else l\<lparr>l_skipped := True\<rparr>)
      in l\<lparr>l_cur := l_cur l + channelCount s, l_start := l_start l + channelCount s\<rparr>)"

text \<open>
  \<open>CreateArtNetSocket()\<close> belongs to the bridge code; the descriptor it would answer
  is the first argument. The pair is the sink and the message batch, both passed by
  reference in the source.
\<close>

definition PrepareData ::
  "int \<Rightarrow> byte list \<Rightarrow> ArtNetOutputData \<times> UDPOutputMessages
     \<Rightarrow> ArtNetOutputData \<times> UDPOutputMessages" where
  "PrepareData CreateArtNetSocket channelData sb =
     (let s = fst sb; b = snd sb in
      if valid s \<and> active s then
        (let b = (if GetSocket b ARTNET_DEST_PORT = -1
                  then ForceSocket ARTNET_DEST_PORT CreateArtNetSocket b else b);
             l = fold (PrepareData_universe s channelData) [0..<nat (universeCount s)]
                   \<lparr>l_msgs = messages b ARTNET_DEST_PORT,
                    l_anHeaders = anHeaders s,
                    l_anIovecs = anIovecs s,
                    l_cur = startChannel s - 1,
                    l_start = 0,
                    l_skipped = False,
                    l_allSkipped = True\<rparr>;
             b = b\<lparr>messages := (messages b)(ARTNET_DEST_PORT := l_msgs l)\<rparr>;
             s = s\<lparr>anHeaders := l_anHeaders l, anIovecs := l_anIovecs l\<rparr>;
             s = s\<lparr>sequenceNumber := sequenceNumber s + 1\<rparr>;
             s = (if sequenceNumber s = 0 then s\<lparr>sequenceNumber := sequenceNumber s + 1\<rparr> else s);
             s = (if l_skipped l then s\<lparr>skippedFrames := skippedFrames s + 1\<rparr> else s);
             s = (if \<not> l_allSkipped l
                  then SaveFrame (drop (nat (startChannel s - 1)) channelData) (l_start l) s
                  else s)
         in (s, b))
      else (s, b))"

text \<open>\<open>PostPrepareData\<close>, lines 208-227: the scan for the sync packet, then the append.\<close>

definition ArtNetSyncMsg :: mmsghdr where
  "ArtNetSyncMsg = \<lparr>msg_name = ArtNetSyncAddress_ptr,
                    msg_namelen = sizeof_sockaddr_in,
                    msg_iov = ArtNetSyncIovecs_ptr,
                    msg_iovlen = 1,
                    msg_len = ARTNET_SYNC_PACKET_LENGTH\<rparr>"

fun already_added :: "mmsghdr list \<Rightarrow> bool" where
  "already_added [] = False"
| "already_added (msg # rest) = (if msg_iov msg = ArtNetSyncIovecs_ptr then True else already_added rest)"

definition PostPrepareData ::
  "byte list \<Rightarrow> ArtNetOutputData \<Rightarrow> UDPOutputMessages \<Rightarrow> UDPOutputMessages" where
  "PostPrepareData channelData s msgs =
     (if valid s \<and> active s then
        (if already_added (messages msgs ARTNET_DEST_PORT) then msgs
         else msgs\<lparr>messages := (messages msgs)
                (ARTNET_DEST_PORT := messages msgs ARTNET_DEST_PORT @ [ArtNetSyncMsg])\<rparr>)
      else msgs)"

text \<open>
  Names for stating the properties of \<open>PrepareData\<close>: whether universe \<open>x\<close> of the
  frame passes the test of line 177, the datagram of lines 178-185 for it, the loop after
  \<open>n\<close> rounds and its initial locals, the number of sync packets in a message vector,
  the counter after lines 196-199, and the datagrams a call has appended to the port's
  vector.
\<close>

definition universe_changed :: "ArtNetOutputData \<Rightarrow> byte list \<Rightarrow> nat \<Rightarrow> bool" where
  "universe_changed s channelData x =
     NeedToOutputFrame s channelData (startChannel s - 1) (int x * channelCount s) (channelCount s)"

definition universe_msg :: "ArtNetOutputData \<Rightarrow> nat \<Rightarrow> mmsghdr" where
  "universe_msg s x = \<lparr>msg_name = anAddress_of (this s),
                             msg_namelen = sizeof_sockaddr_in,
                             msg_iov = anIovecs_at (this s) (x * 2),
                             msg_iovlen = 2,
                             msg_len = channelCount s + ARTNET_HEADER_LENGTH\<rparr>"

definition prepare_loop_n :: "ArtNetOutputData \<Rightarrow> byte list \<Rightarrow> prepare_loop \<Rightarrow> nat \<Rightarrow> prepare_loop" where
  "prepare_loop_n s cd l0 n = fold (PrepareData_universe s cd) [0..<n] l0"

definition sync_count :: "mmsghdr list \<Rightarrow> nat" where
  "sync_count ms = length (filter (\<lambda>m. msg_iov m = ArtNetSyncIovecs_ptr) ms)"

definition next_sequenceNumber :: "byte \<Rightarrow> byte" where
  "next_sequenceNumber q = (if q + 1 = 0 then q + 1 + 1 else q + 1)"

definition queued :: "UDPOutputMessages \<Rightarrow> UDPOutputMessages \<Rightarrow> mmsghdr list" where
  "queued b b' = drop (length (messages b ARTNET_DEST_PORT)) (messages b' ARTNET_DEST_PORT)"

definition loop_init :: "ArtNetOutputData \<Rightarrow> mmsghdr list \<Rightarrow> prepare_loop" where
  "loop_init s ms = \<lparr>l_msgs = ms, l_anHeaders = anHeaders s, l_anIovecs = anIovecs s,
      l_cur = startChannel s - 1, l_start = 0, l_skipped = False, l_allSkipped = True\<rparr>"

text \<open>
  The calls a sink receives over its life, each with the batch it is handed;
  \<open>run_calls\<close> makes them in order and answers the sink and the batches as they leave.
\<close>

datatype sink_call =
    PrepareData_call int "byte list" UDPOutputMessages
  | PostPrepareData_call "byte list" UDPOutputMessages

fun run_call :: "sink_call \<Rightarrow> ArtNetOutputData \<Rightarrow> ArtNetOutputData \<times> UDPOutputMessages" where
  "run_call (PrepareData_call sock channelData b) s = PrepareData sock channelData (s, b)"
| "run_call (PostPrepareData_call channelData b) s = (s, PostPrepareData channelData s b)"

fun run_calls :: "sink_call list \<Rightarrow> ArtNetOutputData \<Rightarrow> ArtNetOutputData \<times> UDPOutputMessages list" where
  "run_calls [] s = (s, [])"
| "run_calls (c # cs) s =
     (let r = run_call c s; rest = run_calls cs (fst r) in (fst rest, snd r # snd rest))"

fun call_batch :: "sink_call \<Rightarrow> UDPOutputMessages" where
  "call_batch (PrepareData_call sock channelData b) = b"
| "call_batch (PostPrepareData_call channelData b) = b"

fun is_PrepareData :: "sink_call \<Rightarrow> bool" where
  "is_PrepareData (PrepareData_call sock channelData b) = True"
| "is_PrepareData (PostPrepareData_call channelData b) = False"

text \<open>What the constructor establishes and \<open>PrepareData\<close> keeps: one header of 18
  bytes per universe, so that the writes of line 187 are within bounds.\<close>

definition headers_ok :: "ArtNetOutputData \<Rightarrow> bool" where
  "headers_ok s = (length (anHeaders s) = nat (universeCount s)
      \<and> list_all (\<lambda>h. length h = 18) (anHeaders s))"

text \<open>A broadcast sink of two universes of four channels and a unicast sink whose host
  does not resolve, for the concrete instances below.\<close>

definition example_base :: UDPOutputData where
  "example_base = \<lparr>description = ''strip'', active = True, valid = True, startChannel = 1,
     channelCount = 4, type = 2, ipAddress = [], skippedFrames = 0, lastData = None\<rparr>"

definition example_config :: ArtNetConfig where
  "example_config = \<lparr>cfg_id = 0, cfg_priority = 0, cfg_universeCount = Some 2,
     cfg_address = ''ctrl.local''\<rparr>"

definition never_resolves :: "string \<Rightarrow> bool \<Rightarrow> 32 word \<times> bool" where
  "never_resolves host v = (0, False)"

definition example_sink :: ArtNetOutputData where
  "example_sink = fst (ArtNetOutputData 0 never_resolves example_base example_config)"

definition example_unicast_sink :: ArtNetOutputData where
  "example_unicast_sink = fst (ArtNetOutputData 1 never_resolves (example_base\<lparr>type := 3\<rparr>) example_config)"

definition empty_batch :: UDPOutputMessages where
  "empty_batch = \<lparr>messages = (\<lambda>port. []), sockets = (\<lambda>port. None)\<rparr>"

subsection \<open>32-bit values\<close>

lemma int32_id: "in_int32 k \<Longrightarrow> int32 k = k"
  by (simp add: int32_def in_int32_def)

lemma int32_mod: "int32 k mod 4294967296 = k mod 4294967296"
proof -
  have "int32 k mod 4294967296 = ((k + 2147483648) mod 4294967296 + (- 2147483648)) mod 4294967296"
    by (simp add: int32_def)
  also have "\<dots> = (k + 2147483648 + (- 2147483648)) mod 4294967296"
    by (rule mod_add_left_eq)
  finally show ?thesis by simp
qed

lemma int32_cong: "a mod 4294967296 = b mod 4294967296 \<Longrightarrow> int32 a = int32 b"
proof -
  assume "a mod 4294967296 = b mod 4294967296"
  then have "(a + 2147483648) mod 4294967296 = (b + 2147483648) mod 4294967296"
    by (rule mod_add_cong) simp
  then show ?thesis by (simp add: int32_def)
qed

lemma int32_add_left: "int32 (a + int32 b) = int32 (a + b)"
  by (rule int32_cong, rule mod_add_cong) (simp_all add: int32_mod)

lemma int32_diff_left: "int32 (int32 a - b) = int32 (a - b)"
  by (rule int32_cong, rule mod_diff_cong) (simp_all add: int32_mod)

lemma int32_diff_mod: "(int32 a - int32 b) mod 4294967296 = (a - b) mod 4294967296"
  by (rule mod_diff_cong) (simp_all add: int32_mod)

subsection \<open>The constructor\<close>

lemma ctor_simps:
  "universeCount (fst (ArtNetOutputData self r base config)) =
     (case cfg_universeCount config of None \<Rightarrow> 1 | Some n \<Rightarrow> if n < 1 then 1 else n)"
  "startChannel (fst (ArtNetOutputData self r base config)) = startChannel base"
  "channelCount (fst (ArtNetOutputData self r base config)) = channelCount base"
  "sequenceNumber (fst (ArtNetOutputData self r base config)) = 1"
  "this (fst (ArtNetOutputData self r base config)) = self"
  "universe (fst (ArtNetOutputData self r base config)) = cfg_id config"
  by (simp_all add: ArtNetOutputData_def Let_def UDPOutputData.defs ArtNetOutputData.defs split: option.split)

lemma ctor_flags:
  "valid (fst (ArtNetOutputData self r base config)) =
     (if type base = ARTNET_TYPE_BROADCAST then valid base
      else snd (r (if type base = 3 then cfg_address config else ipAddress base) (valid base)))"
  "active (fst (ArtNetOutputData self r base config)) =
     (active base \<and> (type base = ARTNET_TYPE_BROADCAST \<or> valid (fst (ArtNetOutputData self r base config))))"
  by (auto simp add: ArtNetOutputData_def Let_def UDPOutputData.defs ArtNetOutputData.defs)

lemma build_fold:
  assumes "n \<le> length hs" and "2 * n \<le> length iovs"
  shows "length (fst (fold (build_universe self u cc) [0..<n] (hs, iovs))) = length hs
       \<and> length (snd (fold (build_universe self u cc) [0..<n] (hs, iovs))) = length iovs
       \<and> (\<forall>x<n. fst (fold (build_universe self u cc) [0..<n] (hs, iovs)) ! x = universe_header u cc x
            \<and> snd (fold (build_universe self u cc) [0..<n] (hs, iovs)) ! (x * 2)
                = \<lparr>iov_base = anHeaders_at self x, iov_len = ARTNET_HEADER_LENGTH\<rparr>
            \<and> snd (fold (build_universe self u cc) [0..<n] (hs, iovs)) ! (x * 2 + 1)
                = \<lparr>iov_base = nullptr, iov_len = size_t cc\<rparr>)"
  using assms
proof (induction n)
  case 0
  then show ?case by simp
next
  case (Suc n)
  then have IH: "length (fst (fold (build_universe self u cc) [0..<n] (hs, iovs))) = length hs"
    "length (snd (fold (build_universe self u cc) [0..<n] (hs, iovs))) = length iovs"
    "\<And>x. x < n \<Longrightarrow> fst (fold (build_universe self u cc) [0..<n] (hs, iovs)) ! x = universe_header u cc x"
    "\<And>x. x < n \<Longrightarrow> snd (fold (build_universe self u cc) [0..<n] (hs, iovs)) ! (x * 2)
                = \<lparr>iov_base = anHeaders_at self x, iov_len = ARTNET_HEADER_LENGTH\<rparr>"
    "\<And>x. x < n \<Longrightarrow> snd (fold (build_universe self u cc) [0..<n] (hs, iovs)) ! (x * 2 + 1)
                = \<lparr>iov_base = nullptr, iov_len = size_t cc\<rparr>"
    by simp_all
  define r where "r = fold (build_universe self u cc) [0..<n] (hs, iovs)"
  have step: "fold (build_universe self u cc) [0..<Suc n] (hs, iovs) = build_universe self u cc n r"
    by (simp add: r_def)
  from Suc.prems IH show ?case
    unfolding step unfolding r_def[symmetric]
    by (auto simp: build_universe_def Let_def nth_list_update less_Suc_eq)
qed

lemma universe_header_length: "length (universe_header u cc x) = 18"
proof -
  have "length ArtNetHeader = 18" by (simp add: ArtNetHeader_def)
  then show ?thesis by (simp add: universe_header_def Let_def)
qed

lemma ctor_headers:
  "anHeaders (fst (ArtNetOutputData self r base config)) =
     map (universe_header (cfg_id config) (channelCount base))
       [0..<nat (universeCount (fst (ArtNetOutputData self r base config)))]"
proof -
  let ?uc = "universeCount (fst (ArtNetOutputData self r base config))"
  let ?f = "fold (build_universe self (cfg_id config) (channelCount base)) [0..<nat ?uc]
              (replicate (nat ?uc) [], replicate (nat (?uc * 2)) \<lparr>iov_base = nullptr, iov_len = 0\<rparr>)"
  have uc: "1 \<le> ?uc" by (simp add: ctor_simps split: option.split)
  have eq: "anHeaders (fst (ArtNetOutputData self r base config)) = fst ?f"
    by (simp add: ArtNetOutputData_def Let_def UDPOutputData.defs ArtNetOutputData.defs
        split: option.split)
  have len2: "2 * nat ?uc \<le> length (replicate (nat (?uc * 2)) \<lparr>iov_base = nullptr, iov_len = 0\<rparr>)"
    using uc by (simp add: nat_mult_distrib)
  from build_fold[of "nat ?uc" "replicate (nat ?uc) []" _ self "cfg_id config" "channelCount base", OF _ len2]
  have "length (fst ?f) = nat ?uc" and "\<forall>x<nat ?uc. fst ?f ! x = universe_header (cfg_id config) (channelCount base) x"
    by simp_all
  then have "fst ?f = map (universe_header (cfg_id config) (channelCount base)) [0..<nat ?uc]"
    by (intro nth_equalityI) simp_all
  with eq show ?thesis by simp
qed

lemma ctor_headers_ok: "headers_ok (fst (ArtNetOutputData self r base config))"
  unfolding headers_ok_def
  by (subst (1 2) ctor_headers) (simp add: list_all_iff universe_header_length)

lemma ctor_iovecs:
  assumes "s = fst (ArtNetOutputData self r base config)" and "x < nat (universeCount s)"
  shows "anIovecs s ! (x * 2) = \<lparr>iov_base = anHeaders_at self x, iov_len = ARTNET_HEADER_LENGTH\<rparr>
       \<and> anIovecs s ! (x * 2 + 1) = \<lparr>iov_base = nullptr, iov_len = size_t (channelCount base)\<rparr>
       \<and> anHeaders s ! x = universe_header (cfg_id config) (channelCount base) x"
proof -
  let ?uc = "universeCount (fst (ArtNetOutputData self r base config))"
  let ?f = "fold (build_universe self (cfg_id config) (channelCount base)) [0..<nat ?uc]
              (replicate (nat ?uc) [], replicate (nat (?uc * 2)) \<lparr>iov_base = nullptr, iov_len = 0\<rparr>)"
  have uc: "1 \<le> ?uc" by (simp add: ctor_simps split: option.split)
  have eq: "anIovecs (fst (ArtNetOutputData self r base config)) = snd ?f"
    by (simp add: ArtNetOutputData_def Let_def UDPOutputData.defs ArtNetOutputData.defs
        split: option.split)
  have len2: "2 * nat ?uc \<le> length (replicate (nat (?uc * 2)) \<lparr>iov_base = nullptr, iov_len = 0\<rparr>)"
    using uc by (simp add: nat_mult_distrib)
  from build_fold[of "nat ?uc" "replicate (nat ?uc) []" _ self "cfg_id config" "channelCount base", OF _ len2]
  have "\<forall>x<nat ?uc. snd ?f ! (x * 2) = \<lparr>iov_base = anHeaders_at self x, iov_len = ARTNET_HEADER_LENGTH\<rparr>
            \<and> snd ?f ! (x * 2 + 1) = \<lparr>iov_base = nullptr, iov_len = size_t (channelCount base)\<rparr>"
    by simp
  moreover have "anHeaders s ! x = universe_header (cfg_id config) (channelCount base) x"
    using assms by (simp add: ctor_headers)
  ultimately show ?thesis using assms eq by simp
qed

lemma byte_of_int: "0 \<le> k \<Longrightarrow> k < 256 \<Longrightarrow> uint (word_of_int k :: byte) = k"
  by (simp add: uint_word_of_int)

lemma universe_header_fields:
  assumes "0 \<le> u + int x" and "u + int x < 65536" and "0 \<le> cc" and "cc < 65536"
  shows "uint (universe_header u cc x ! 14) + 256 * uint (universe_header u cc x ! 15) = u + int x"
    and "256 * uint (universe_header u cc x ! 16) + uint (universe_header u cc x ! 17) = cc"
    and "take 12 (universe_header u cc x) = take 12 ArtNetHeader"
proof -
  have d: "(u + int x) sdiv 256 = (u + int x) div 256" "(u + int x) smod 256 = (u + int x) mod 256"
    "cc sdiv 256 = cc div 256" "cc smod 256 = cc mod 256"
    using assms by (simp_all add: signed_divide_int_def signed_modulo_int_def sgn_if)
  have b: "uint (word_of_int ((u + int x) mod 256) :: byte) = (u + int x) mod 256"
    "uint (word_of_int ((u + int x) div 256) :: byte) = (u + int x) div 256"
    "uint (word_of_int (cc mod 256) :: byte) = cc mod 256"
    "uint (word_of_int (cc div 256) :: byte) = cc div 256"
    using assms by (simp_all add: byte_of_int)
  have h: "universe_header u cc x ! 14 = word_of_int ((u + int x) mod 256)"
    "universe_header u cc x ! 15 = word_of_int ((u + int x) div 256)"
    "universe_header u cc x ! 16 = word_of_int (cc div 256)"
    "universe_header u cc x ! 17 = word_of_int (cc mod 256)"
    by (simp_all add: universe_header_def Let_def d ArtNetHeader_def
        ARTNET_UNIVERSE_INDEX_def ARTNET_LENGTH_INDEX_def)
  show "uint (universe_header u cc x ! 14) + 256 * uint (universe_header u cc x ! 15) = u + int x"
    unfolding h b by simp
  show "256 * uint (universe_header u cc x ! 16) + uint (universe_header u cc x ! 17) = cc"
    unfolding h b by simp
  show "take 12 (universe_header u cc x) = take 12 ArtNetHeader"
    by (simp add: universe_header_def Let_def ArtNetHeader_def
        ARTNET_UNIVERSE_INDEX_def ARTNET_LENGTH_INDEX_def)
qed

lemma example_sink_simps:
  "valid example_sink" "active example_sink" "universeCount example_sink = 2"
  "startChannel example_sink = 1" "channelCount example_sink = 4" "this example_sink = 0"
  "skippedFrames example_sink = 0" "lastData example_sink = None"
  by (simp_all add: example_sink_def ctor_simps ctor_flags example_base_def example_config_def
      ARTNET_TYPE_BROADCAST_def ArtNetOutputData_def Let_def UDPOutputData.defs ArtNetOutputData.defs)

subsection \<open>The loop of \<open>PrepareData\<close>\<close>

lemma prepare_loop_0: "prepare_loop_n s cd l0 0 = l0"
  by (simp add: prepare_loop_n_def)

lemma prepare_loop_Suc:
  "prepare_loop_n s cd l0 (Suc n) = PrepareData_universe s cd n (prepare_loop_n s cd l0 n)"
  by (simp add: prepare_loop_n_def)

lemma prepare_loop_start:
  "l_start (prepare_loop_n s cd l0 n) = l_start l0 + int n * channelCount s"
  by (induction n) (simp_all add: prepare_loop_0 prepare_loop_Suc PrepareData_universe_def Let_def algebra_simps)

lemma prepare_loop_cur:
  "l_cur (prepare_loop_n s cd l0 n) = l_cur l0 + int n * channelCount s"
  by (induction n) (simp_all add: prepare_loop_0 prepare_loop_Suc PrepareData_universe_def Let_def algebra_simps)

lemma prepare_step:
  assumes "l_start l0 = 0"
  shows "prepare_loop_n s cd l0 (Suc n) =
     (if universe_changed s cd n
      then (prepare_loop_n s cd l0 n)\<lparr>
             l_msgs := l_msgs (prepare_loop_n s cd l0 n) @ [universe_msg s n],
             l_anHeaders := (l_anHeaders (prepare_loop_n s cd l0 n))
                [n := (l_anHeaders (prepare_loop_n s cd l0 n) ! n)[ARTNET_SEQUENCE_INDEX := sequenceNumber s]],
             l_anIovecs := (l_anIovecs (prepare_loop_n s cd l0 n))
                [n * 2 + 1 := (l_anIovecs (prepare_loop_n s cd l0 n) ! (n * 2 + 1))
                    \<lparr>iov_base := channelData_at (l_cur (prepare_loop_n s cd l0 n))\<rparr>],
             l_allSkipped := False,
             l_cur := l_cur (prepare_loop_n s cd l0 n) + channelCount s,
             l_start := l_start (prepare_loop_n s cd l0 n) + channelCount s\<rparr>
      else (prepare_loop_n s cd l0 n)\<lparr>
             l_skipped := True,
             l_cur := l_cur (prepare_loop_n s cd l0 n) + channelCount s,
             l_start := l_start (prepare_loop_n s cd l0 n) + channelCount s\<rparr>)"
  using assms
  by (simp add: prepare_loop_Suc PrepareData_universe_def Let_def universe_changed_def
      universe_msg_def prepare_loop_start)

lemma prepare_loop_msgs:
  assumes "l_start l0 = 0"
  shows "l_msgs (prepare_loop_n s cd l0 n) =
         l_msgs l0 @ map (universe_msg s) (filter (universe_changed s cd) [0..<n])"
  by (induction n) (simp_all add: prepare_loop_0 prepare_step[OF assms])

lemma prepare_loop_skipped:
  assumes "l_start l0 = 0"
  shows "l_skipped (prepare_loop_n s cd l0 n) = (l_skipped l0 \<or> (\<exists>x<n. \<not> universe_changed s cd x))"
  by (induction n) (auto simp: prepare_loop_0 prepare_step[OF assms] less_Suc_eq)

lemma prepare_loop_allSkipped:
  assumes "l_start l0 = 0"
  shows "l_allSkipped (prepare_loop_n s cd l0 n) = (l_allSkipped l0 \<and> (\<forall>x<n. \<not> universe_changed s cd x))"
  by (induction n) (auto simp: prepare_loop_0 prepare_step[OF assms] less_Suc_eq)

lemma prepare_loop_lengths:
  assumes "l_start l0 = 0"
  shows "length (l_anHeaders (prepare_loop_n s cd l0 n)) = length (l_anHeaders l0)
       \<and> length (l_anIovecs (prepare_loop_n s cd l0 n)) = length (l_anIovecs l0)"
  by (induction n) (simp_all add: prepare_loop_0 prepare_step[OF assms])

lemma prepare_loop_headers:
  assumes "l_start l0 = 0" and "x < length (l_anHeaders l0)"
  shows "l_anHeaders (prepare_loop_n s cd l0 n) ! x =
             (if x < n \<and> universe_changed s cd x
              then (l_anHeaders l0 ! x)[ARTNET_SEQUENCE_INDEX := sequenceNumber s]
              else l_anHeaders l0 ! x)"
proof (induction n)
  case 0
  show ?case by (simp add: prepare_loop_0)
next
  case (Suc n)
  have len: "length (l_anHeaders (prepare_loop_n s cd l0 n)) = length (l_anHeaders l0)"
    using prepare_loop_lengths[OF assms(1)] by simp
  show ?case
  proof (cases "x = n")
    case True
    with Suc assms(2) len show ?thesis
      by (simp add: prepare_step[OF assms(1)])
  next
    case False
    with Suc assms(2) len show ?thesis
      by (simp add: prepare_step[OF assms(1)] less_Suc_eq)
  qed
qed

subsection \<open>\<open>PrepareData\<close> as a whole\<close>

lemma PrepareData_inactive:
  "\<not> (valid s \<and> active s) \<Longrightarrow> PrepareData sock cd (s, b) = (s, b)"
  unfolding PrepareData_def Let_def fst_conv snd_conv by (rule if_not_P)

lemma PrepareData_loop:
  "fold (PrepareData_universe s cd) [0..<n] l0 = prepare_loop_n s cd l0 n"
  by (simp add: prepare_loop_n_def)

lemma loop_init_simps:
  "l_start (loop_init s ms) = 0" "l_msgs (loop_init s ms) = ms"
  "l_anHeaders (loop_init s ms) = anHeaders s" "l_skipped (loop_init s ms) = False"
  "l_allSkipped (loop_init s ms) = True"
  by (simp_all add: loop_init_def)

lemma PrepareData_messages:
  assumes "valid s" and "active s"
  shows "messages (snd (PrepareData sock cd (s, b))) =
         (messages b)(ARTNET_DEST_PORT := messages b ARTNET_DEST_PORT @
            map (universe_msg s) (filter (universe_changed s cd) [0..<nat (universeCount s)]))"
  using assms
  by (simp add: PrepareData_def Let_def PrepareData_loop loop_init_def[symmetric]
      prepare_loop_msgs loop_init_simps ForceSocket_def)

lemma PrepareData_sequenceNumber:
  assumes "valid s" and "active s"
  shows "sequenceNumber (fst (PrepareData sock cd (s, b))) = next_sequenceNumber (sequenceNumber s)"
  using assms
  by (simp add: PrepareData_def Let_def next_sequenceNumber_def SaveFrame_def)

lemma PrepareData_skippedFrames:
  assumes "valid s" and "active s"
  shows "skippedFrames (fst (PrepareData sock cd (s, b))) =
         (if \<exists>x<nat (universeCount s). \<not> universe_changed s cd x
          then skippedFrames s + 1 else skippedFrames s)"
  using assms
  by (simp add: PrepareData_def Let_def PrepareData_loop loop_init_def[symmetric]
      prepare_loop_skipped loop_init_simps SaveFrame_def)

lemma PrepareData_lastData:
  assumes "valid s" and "active s"
  shows "lastData (fst (PrepareData sock cd (s, b))) =
         (if \<exists>x<nat (universeCount s). universe_changed s cd x
          then Some (byte_range cd (startChannel s - 1) (int (nat (universeCount s)) * channelCount s))
          else lastData s)"
  using assms
  by (auto simp: PrepareData_def Let_def PrepareData_loop loop_init_def[symmetric]
      prepare_loop_allSkipped prepare_loop_start loop_init_simps SaveFrame_def byte_range_def)

lemma PrepareData_frame:
  "valid (fst (PrepareData sock cd (s, b))) = valid s"
  "active (fst (PrepareData sock cd (s, b))) = active s"
  "this (fst (PrepareData sock cd (s, b))) = this s"
  "universeCount (fst (PrepareData sock cd (s, b))) = universeCount s"
  "startChannel (fst (PrepareData sock cd (s, b))) = startChannel s"
  "channelCount (fst (PrepareData sock cd (s, b))) = channelCount s"
  by (simp_all add: PrepareData_def Let_def SaveFrame_def)

lemma PrepareData_headers:
  assumes "valid s" and "active s" and "x < length (anHeaders s)"
  shows "length (anHeaders (fst (PrepareData sock cd (s, b)))) = length (anHeaders s)"
    and "anHeaders (fst (PrepareData sock cd (s, b))) ! x =
         (if x < nat (universeCount s) \<and> universe_changed s cd x
          then (anHeaders s ! x)[ARTNET_SEQUENCE_INDEX := sequenceNumber s]
          else anHeaders s ! x)"
  using assms prepare_loop_lengths[of "loop_init s ms" s cd "nat (universeCount s)" for ms]
    prepare_loop_headers[of "loop_init s ms" x s cd "nat (universeCount s)" for ms]
  by (simp_all add: PrepareData_def Let_def PrepareData_loop loop_init_def[symmetric]
      loop_init_simps SaveFrame_def)

lemma queued_PrepareData:
  assumes "valid s" and "active s"
  shows "queued b (snd (PrepareData sock cd (s, b))) =
         map (universe_msg s) (filter (universe_changed s cd) [0..<nat (universeCount s)])"
  using assms by (simp add: queued_def PrepareData_messages)

lemma universe_msg_iov: "msg_iov (universe_msg s x) = anIovecs_at (this s) (x * 2)"
  by (simp add: universe_msg_def)

lemma PrepareData_headers_ok:
  assumes "headers_ok s"
  shows "headers_ok (fst (PrepareData sock cd (s, b)))"
proof (cases "valid s \<and> active s")
  case False
  then show ?thesis using assms by (simp add: PrepareData_inactive)
next
  case True
  then have v: "valid s" and a: "active s" by simp_all
  have len: "length (anHeaders (fst (PrepareData sock cd (s, b)))) = length (anHeaders s)"
  proof (cases "anHeaders s = []")
    case True
    then have "nat (universeCount s) = 0" using assms by (simp add: headers_ok_def)
    then show ?thesis using v a True
      by (simp add: PrepareData_def Let_def SaveFrame_def)
  next
    case False
    then have "0 < length (anHeaders s)" by simp
    from PrepareData_headers(1)[OF v a this] show ?thesis .
  qed
  have "\<forall>x<length (anHeaders s). length (anHeaders (fst (PrepareData sock cd (s, b))) ! x) = 18"
    using assms by (simp add: PrepareData_headers(2)[OF v a] headers_ok_def list_all_length)
  with len assms show ?thesis
    by (simp add: headers_ok_def list_all_length PrepareData_frame)
qed

lemma PrepareData_sequence_byte:
  assumes "valid s" and "active s" and "headers_ok s"
    and "x < nat (universeCount s)" and "universe_changed s cd x"
  shows "anHeaders (fst (PrepareData sock cd (s, b))) ! x ! ARTNET_SEQUENCE_INDEX = sequenceNumber s"
proof -
  have x: "x < length (anHeaders s)" and "length (anHeaders s ! x) = 18"
    using assms(3,4) by (simp_all add: headers_ok_def list_all_length)
  then show ?thesis
    using assms by (simp add: PrepareData_headers(2) ARTNET_SEQUENCE_INDEX_def)
qed

lemma PrepareData_sync_count:
  "sync_count (messages (snd (PrepareData sock cd (s, b))) ARTNET_DEST_PORT)
   = sync_count (messages b ARTNET_DEST_PORT)"
proof (cases "valid s \<and> active s")
  case False
  then show ?thesis by (simp add: PrepareData_inactive)
next
  case True
  then show ?thesis
    by (simp add: PrepareData_messages sync_count_def universe_msg_iov filter_empty_conv)
qed

subsection \<open>The sequence number over many calls\<close>

lemma next_sequenceNumber_unat:
  assumes "q \<noteq> 0"
  shows "unat (next_sequenceNumber q) = unat q mod 255 + 1"
proof (cases "q = 255")
  case True
  then show ?thesis by (simp add: next_sequenceNumber_def)
next
  case False
  have lt: "unat q < 256" using unsigned_less[of q, where 'a=nat] by simp
  have "unat q \<noteq> unat (255 :: byte)" using False by (simp add: word_unat_eq_iff)
  with lt have lt': "unat q < 255" by simp
  then have u: "unat (q + 1) = unat q + 1"
    by (simp add: unat_word_ariths)
  then have "unat (q + 1) \<noteq> unat (0 :: byte)" by simp
  then have "q + 1 \<noteq> 0" by (simp only: word_unat_eq_iff[symmetric] not_False_eq_True)
  with u lt' show ?thesis by (simp add: next_sequenceNumber_def)
qed

lemma next_sequenceNumber_nonzero: "q \<noteq> 0 \<Longrightarrow> next_sequenceNumber q \<noteq> 0"
  using next_sequenceNumber_unat[of q] by (auto simp: unat_gt_0[symmetric] simp del: unat_gt_0)

lemma run_call_inactive:
  "\<not> (valid s \<and> active s) \<Longrightarrow> run_call c s = (s, call_batch c)"
  by (cases c) (auto simp: PrepareData_inactive PostPrepareData_def)

lemma run_calls_inactive:
  "\<not> (valid s \<and> active s) \<Longrightarrow> run_calls cs s = (s, map call_batch cs)"
  by (induction cs) (simp_all add: run_call_inactive)

lemma run_call_flags:
  "valid (fst (run_call c s)) = valid s" "active (fst (run_call c s)) = active s"
  by (cases c; simp add: PrepareData_frame)+

lemma run_calls_flags:
  "valid (fst (run_calls cs s)) = valid s \<and> active (fst (run_calls cs s)) = active s"
  by (induction cs arbitrary: s) (simp_all add: run_call_flags Let_def)

lemma run_call_headers_ok: "headers_ok s \<Longrightarrow> headers_ok (fst (run_call c s))"
  by (cases c) (simp_all add: PrepareData_headers_ok)

lemma run_calls_headers_ok: "headers_ok s \<Longrightarrow> headers_ok (fst (run_calls cs s))"
  by (induction cs arbitrary: s) (simp_all add: run_call_headers_ok Let_def)

lemma run_call_sequenceNumber:
  "valid s \<Longrightarrow> active s \<Longrightarrow> sequenceNumber (fst (run_call c s)) =
     (if is_PrepareData c then next_sequenceNumber (sequenceNumber s) else sequenceNumber s)"
  by (cases c) (simp_all add: PrepareData_sequenceNumber)

lemma run_calls_sequenceNumber:
  assumes "valid s" and "active s" and "sequenceNumber s \<noteq> 0"
  shows "unat (sequenceNumber (fst (run_calls cs s)))
         = (unat (sequenceNumber s) - 1 + length (filter is_PrepareData cs)) mod 255 + 1"
  using assms
proof (induction cs arbitrary: s)
  case Nil
  have "unat (sequenceNumber s) < 256" using unsigned_less[of "sequenceNumber s", where 'a=nat] by simp
  moreover have "unat (sequenceNumber s) \<noteq> 0" using Nil unat_gt_0[of "sequenceNumber s"] by simp
  ultimately show ?case by simp
next
  case (Cons c cs)
  let ?s' = "fst (run_call c s)"
  have nz: "sequenceNumber ?s' \<noteq> 0"
    using Cons.prems by (simp add: run_call_sequenceNumber next_sequenceNumber_nonzero)
  have IH: "unat (sequenceNumber (fst (run_calls cs ?s')))
         = (unat (sequenceNumber ?s') - 1 + length (filter is_PrepareData cs)) mod 255 + 1"
    using Cons.IH[of ?s'] Cons.prems nz by (simp add: run_call_flags)
  have pos: "unat (sequenceNumber s) \<noteq> 0" using Cons.prems unat_gt_0[of "sequenceNumber s"] by simp
  show ?case
  proof (cases "is_PrepareData c")
    case True
    then have "unat (sequenceNumber ?s') = unat (sequenceNumber s) mod 255 + 1"
      using Cons.prems by (simp add: run_call_sequenceNumber next_sequenceNumber_unat)
    with IH True pos show ?thesis
      by (simp add: Let_def) presburger
  next
    case False
    then have "sequenceNumber ?s' = sequenceNumber s"
      using Cons.prems by (simp add: run_call_sequenceNumber)
    with IH False show ?thesis by (simp add: Let_def)
  qed
qed

subsection \<open>The sync packet scan\<close>

lemma already_added_iff: "already_added ms \<longleftrightarrow> (\<exists>m\<in>set ms. msg_iov m = ArtNetSyncIovecs_ptr)"
  by (induction ms) auto

lemma sync_count_0: "sync_count ms = 0 \<longleftrightarrow> \<not> already_added ms"
  by (auto simp: sync_count_def already_added_iff filter_empty_conv)

lemma PostPrepareData_already:
  "already_added (messages b ARTNET_DEST_PORT) \<Longrightarrow> PostPrepareData cd s b = b"
  by (simp add: PostPrepareData_def)

lemma PostPrepareData_first:
  "valid s \<Longrightarrow> active s \<Longrightarrow> \<not> already_added (messages b ARTNET_DEST_PORT) \<Longrightarrow>
   PostPrepareData cd s b =
     b\<lparr>messages := (messages b)(ARTNET_DEST_PORT := messages b ARTNET_DEST_PORT @ [ArtNetSyncMsg])\<rparr>"
  by (simp add: PostPrepareData_def)

lemma already_added_append_sync: "already_added (ms @ [ArtNetSyncMsg])"
  by (simp add: already_added_iff ArtNetSyncMsg_def)

lemma fold_PostPrepareData_already:
  "already_added (messages b ARTNET_DEST_PORT) \<Longrightarrow> fold (PostPrepareData cd) sinks b = b"
  by (induction sinks) (simp_all add: PostPrepareData_already)

subsection \<open>The protocol sink's properties\<close>

text \<open>
  Claim C1, as amended. For a sink constructed with \<open>universeCount = N\<close>, \<open>N \<ge> 1\<close>:
  as 32-bit values, \<open>min\<close> is \<open>startChannel - 1\<close> and \<open>max - min\<close> is
  \<open>channelCount * N\<close>; and when \<open>startChannel - 1\<close> and
  \<open>startChannel - 1 + channelCount * N\<close> are both values of a 32-bit \<open>int\<close>,
  \<open>GetRequiredChannelRange\<close> answers exactly these two, so that the range has the
  length \<open>channelCount * N\<close>. \<open>startChannel\<close> and \<open>channelCount\<close> are the configured
  ones.
\<close>

theorem GetRequiredChannelRange_half_open:
  assumes "cfg_universeCount config = Some N" and "1 \<le> N"
    and "s = fst (ArtNetOutputData self toInetAddr base config)"
  shows "startChannel s = startChannel base \<and> channelCount s = channelCount base
       \<and> universeCount s = N
       \<and> fst (GetRequiredChannelRange s) mod 4294967296 = (startChannel s - 1) mod 4294967296
       \<and> (snd (GetRequiredChannelRange s) - fst (GetRequiredChannelRange s)) mod 4294967296
           = (channelCount s * N) mod 4294967296
       \<and> (in_int32 (startChannel s - 1) \<and> in_int32 (startChannel s - 1 + channelCount s * N) \<longrightarrow>
             GetRequiredChannelRange s = (startChannel s - 1, startChannel s - 1 + channelCount s * N)
           \<and> snd (GetRequiredChannelRange s) - fst (GetRequiredChannelRange s) = channelCount s * N)"
proof -
  have uc: "universeCount s = N" using assms by (simp add: ctor_simps)
  have mx: "snd (GetRequiredChannelRange s) = int32 (startChannel s - 1 + channelCount s * N)"
    by (simp add: GetRequiredChannelRange_def uc int32_add_left int32_diff_left algebra_simps)
  have mn: "fst (GetRequiredChannelRange s) = int32 (startChannel s - 1)"
    by (simp add: GetRequiredChannelRange_def)
  have d: "(int32 (startChannel s - 1 + channelCount s * N) - int32 (startChannel s - 1)) mod 4294967296
           = (channelCount s * N) mod 4294967296"
    using int32_diff_mod[of "startChannel s - 1 + channelCount s * N" "startChannel s - 1"] by simp
  have f: "startChannel s = startChannel base" "channelCount s = channelCount base"
    using assms by (simp_all add: ctor_simps)
  have a: "fst (GetRequiredChannelRange s) mod 4294967296 = (startChannel s - 1) mod 4294967296"
    unfolding mn by (rule int32_mod)
  have b: "(snd (GetRequiredChannelRange s) - fst (GetRequiredChannelRange s)) mod 4294967296
           = (channelCount s * N) mod 4294967296"
    unfolding mn mx by (rule d)
  have c: "in_int32 (startChannel s - 1) \<and> in_int32 (startChannel s - 1 + channelCount s * N) \<longrightarrow>
             GetRequiredChannelRange s = (startChannel s - 1, startChannel s - 1 + channelCount s * N)
           \<and> snd (GetRequiredChannelRange s) - fst (GetRequiredChannelRange s) = channelCount s * N"
  proof (intro impI, elim conjE)
    assume i: "in_int32 (startChannel s - 1)" "in_int32 (startChannel s - 1 + channelCount s * N)"
    have "fst (GetRequiredChannelRange s) = startChannel s - 1"
      unfolding mn using i(1) by (rule int32_id)
    moreover have "snd (GetRequiredChannelRange s) = startChannel s - 1 + channelCount s * N"
      unfolding mx using i(2) by (rule int32_id)
    ultimately show "GetRequiredChannelRange s = (startChannel s - 1, startChannel s - 1 + channelCount s * N)
           \<and> snd (GetRequiredChannelRange s) - fst (GetRequiredChannelRange s) = channelCount s * N"
      by (simp add: prod_eq_iff)
  qed
  from f uc a b c show ?thesis by (intro conjI)
qed

theorem GetRequiredChannelRange_half_open_witness:
  "cfg_universeCount example_config = Some 2 \<and> (1::int) \<le> 2
   \<and> in_int32 (startChannel example_sink - 1)
   \<and> in_int32 (startChannel example_sink - 1 + channelCount example_sink * 2)
   \<and> GetRequiredChannelRange example_sink = (0, 8)"
proof -
  have c: "cfg_universeCount example_config = Some 2" by (simp add: example_config_def)
  have i: "in_int32 (startChannel example_sink - 1)"
    "in_int32 (startChannel example_sink - 1 + channelCount example_sink * 2)"
    by (simp_all add: example_sink_simps in_int32_def)
  from GetRequiredChannelRange_half_open[OF c _ example_sink_def] i
  have "GetRequiredChannelRange example_sink
          = (startChannel example_sink - 1, startChannel example_sink - 1 + channelCount example_sink * 2)"
    by simp
  then have "GetRequiredChannelRange example_sink = (0, 8)"
    by (simp add: example_sink_simps)
  with c i show ?thesis by simp
qed

text \<open>
  Claim C1 as stated fails where the product leaves the 32-bit range: two universes of
  2147483647 channels from channel 1 need 4294967294 channels, and the range returned is
  \<open>[0, -2)\<close>.
\<close>

theorem GetRequiredChannelRange_overflow:
  "universeCount (fst (ArtNetOutputData 0 never_resolves (example_base\<lparr>channelCount := 2147483647\<rparr>)
       example_config)) = 2
   \<and> GetRequiredChannelRange (fst (ArtNetOutputData 0 never_resolves
       (example_base\<lparr>channelCount := 2147483647\<rparr>) example_config)) = (0, - 2)
   \<and> snd (GetRequiredChannelRange (fst (ArtNetOutputData 0 never_resolves
          (example_base\<lparr>channelCount := 2147483647\<rparr>) example_config)))
       - fst (GetRequiredChannelRange (fst (ArtNetOutputData 0 never_resolves
          (example_base\<lparr>channelCount := 2147483647\<rparr>) example_config)))
     \<noteq> 2147483647 * 2"
  by (simp add: GetRequiredChannelRange_def ctor_simps example_base_def example_config_def int32_def)

text \<open>
  Claim C2. For a valid, active sink and a universe \<open>x\<close> of it whose byte range in the
  show buffer equals the same range of the stored snapshot, \<open>PrepareData\<close> only appends
  to the port's messages, none of the appended datagrams is the one of universe \<open>x\<close>
  (none points at \<open>anIovecs[x * 2]\<close> of this sink), and the skipped-frame counter grows by
  exactly one in that call, however many universes were skipped.
\<close>

theorem unchanged_universe_skipped:
  assumes "valid s" and "active s" and "x < nat (universeCount s)"
    and "lastData s = Some snap"
    and "byte_range channelData (startChannel s - 1 + int x * channelCount s) (channelCount s)
         = byte_range snap (int x * channelCount s) (channelCount s)"
  shows "messages (snd (PrepareData sock channelData (s, b))) ARTNET_DEST_PORT
           = messages b ARTNET_DEST_PORT @ queued b (snd (PrepareData sock channelData (s, b)))
       \<and> (\<forall>m \<in> set (queued b (snd (PrepareData sock channelData (s, b)))).
             msg_iov m \<noteq> anIovecs_at (this s) (x * 2))
       \<and> skippedFrames (fst (PrepareData sock channelData (s, b))) = skippedFrames s + 1"
proof -
  have nc: "\<not> universe_changed s channelData x"
    using assms(4,5) by (simp add: universe_changed_def NeedToOutputFrame_def)
  have "messages (snd (PrepareData sock channelData (s, b))) ARTNET_DEST_PORT
           = messages b ARTNET_DEST_PORT @ queued b (snd (PrepareData sock channelData (s, b)))"
    using assms(1,2) by (simp add: queued_def PrepareData_messages)
  moreover have "\<forall>m \<in> set (queued b (snd (PrepareData sock channelData (s, b)))).
             msg_iov m \<noteq> anIovecs_at (this s) (x * 2)"
    using nc by (auto simp: queued_PrepareData[OF assms(1,2)] universe_msg_iov)
  moreover have "skippedFrames (fst (PrepareData sock channelData (s, b))) = skippedFrames s + 1"
    using nc assms(3) by (auto simp: PrepareData_skippedFrames[OF assms(1,2)])
  ultimately show ?thesis by blast
qed

theorem unchanged_universe_skipped_witness:
  "valid (example_sink\<lparr>lastData := Some [1, 2, 3, 4, 5, 6, 7, 8]\<rparr>)
   \<and> active (example_sink\<lparr>lastData := Some [1, 2, 3, 4, 5, 6, 7, 8]\<rparr>)
   \<and> 0 < nat (universeCount (example_sink\<lparr>lastData := Some [1, 2, 3, 4, 5, 6, 7, 8]\<rparr>))
   \<and> byte_range [1, 2, 3, 4, 9, 9, 9, 9] 0 4 = byte_range [1, 2, 3, 4, 5, 6, 7, 8] 0 4
   \<and> map msg_iov (queued empty_batch (snd (PrepareData 7 [1, 2, 3, 4, 9, 9, 9, 9]
        (example_sink\<lparr>lastData := Some [1, 2, 3, 4, 5, 6, 7, 8]\<rparr>, empty_batch))))
       = [anIovecs_at 0 2]
   \<and> skippedFrames (fst (PrepareData 7 [1, 2, 3, 4, 9, 9, 9, 9]
        (example_sink\<lparr>lastData := Some [1, 2, 3, 4, 5, 6, 7, 8]\<rparr>, empty_batch))) = 1"
proof -
  let ?s = "example_sink\<lparr>lastData := Some [1, 2, 3, 4, 5, 6, 7, 8]\<rparr>"
  have v: "valid ?s" and a: "active ?s" and x: "0 < nat (universeCount ?s)"
    and l: "lastData ?s = Some [1, 2, 3, 4, 5, 6, 7, 8]"
    by (simp_all add: example_sink_simps)
  have e: "byte_range [1, 2, 3, 4, 9, 9, 9, 9] 0 4 = byte_range [1, 2, 3, 4, 5, 6, 7, 8] 0 4"
    by (simp add: byte_range_def)
  then have e': "byte_range [1, 2, 3, 4, 9, 9, 9, 9] (startChannel ?s - 1 + int 0 * channelCount ?s) (channelCount ?s)
       = byte_range [1, 2, 3, 4, 5, 6, 7, 8] (int 0 * channelCount ?s) (channelCount ?s)"
    by (simp add: example_sink_simps)
  have ch: "filter (universe_changed ?s [1, 2, 3, 4, 9, 9, 9, 9]) [0..<2] = [1]"
    by (simp add: universe_changed_def NeedToOutputFrame_def byte_range_def example_sink_simps upt_rec)
  have q: "map msg_iov (queued empty_batch (snd (PrepareData 7 [1, 2, 3, 4, 9, 9, 9, 9] (?s, empty_batch))))
           = [anIovecs_at 0 2]"
    by (simp add: queued_PrepareData example_sink_simps ch universe_msg_iov)
  from unchanged_universe_skipped[OF v a x l e', of 7 empty_batch]
  have "skippedFrames (fst (PrepareData 7 [1, 2, 3, 4, 9, 9, 9, 9] (?s, empty_batch))) = skippedFrames ?s + 1"
    by (rule conjunct2[THEN conjunct2])
  then have "skippedFrames (fst (PrepareData 7 [1, 2, 3, 4, 9, 9, 9, 9] (?s, empty_batch))) = 1"
    by (simp add: example_sink_simps)
  with v a x e q show ?thesis by (intro conjI)
qed

text \<open>
  Claim C3. For a valid, active sink, \<open>PrepareData\<close> appends to the port's messages the
  datagrams of exactly the universes that pass the test of line 177, in ascending order:
  those whose byte range differs from the snapshot's, and every universe when there is no
  snapshot yet. The snapshot becomes the sink's whole byte range of this frame if at
  least one datagram was queued in the call, and stays as it was otherwise.
\<close>

theorem changed_universes_queued:
  assumes "valid s" and "active s"
  shows "messages (snd (PrepareData sock channelData (s, b))) ARTNET_DEST_PORT
           = messages b ARTNET_DEST_PORT
             @ map (universe_msg s) (filter (universe_changed s channelData) [0..<nat (universeCount s)])
       \<and> (\<forall>x. universe_changed s channelData x \<longleftrightarrow>
             (case lastData s of None \<Rightarrow> True
              | Some snap \<Rightarrow>
                  byte_range channelData (startChannel s - 1 + int x * channelCount s) (channelCount s)
                  \<noteq> byte_range snap (int x * channelCount s) (channelCount s)))
       \<and> lastData (fst (PrepareData sock channelData (s, b))) =
           (if queued b (snd (PrepareData sock channelData (s, b))) \<noteq> []
            then Some (byte_range channelData (startChannel s - 1)
                         (int (nat (universeCount s)) * channelCount s))
            else lastData s)"
proof -
  have q: "queued b (snd (PrepareData sock channelData (s, b))) \<noteq> []
           \<longleftrightarrow> (\<exists>x<nat (universeCount s). universe_changed s channelData x)"
    by (auto simp: queued_PrepareData[OF assms] filter_empty_conv)
  show ?thesis
    unfolding q
    by (simp add: PrepareData_messages[OF assms] PrepareData_lastData[OF assms]
        universe_changed_def NeedToOutputFrame_def)
qed

theorem changed_universes_queued_witness:
  "valid (example_sink\<lparr>lastData := Some [1, 2, 3, 4, 5, 6, 7, 8]\<rparr>)
   \<and> active (example_sink\<lparr>lastData := Some [1, 2, 3, 4, 5, 6, 7, 8]\<rparr>)
   \<and> map msg_iov (messages (snd (PrepareData 7 [1, 2, 3, 4, 9, 9, 9, 9]
        (example_sink\<lparr>lastData := Some [1, 2, 3, 4, 5, 6, 7, 8]\<rparr>, empty_batch))) ARTNET_DEST_PORT)
       = [anIovecs_at 0 2]
   \<and> lastData (fst (PrepareData 7 [1, 2, 3, 4, 9, 9, 9, 9]
        (example_sink\<lparr>lastData := Some [1, 2, 3, 4, 5, 6, 7, 8]\<rparr>, empty_batch)))
       = Some [1, 2, 3, 4, 9, 9, 9, 9]"
proof -
  let ?s = "example_sink\<lparr>lastData := Some [1, 2, 3, 4, 5, 6, 7, 8]\<rparr>"
  let ?r = "PrepareData 7 [1, 2, 3, 4, 9, 9, 9, 9] (?s, empty_batch)"
  have v: "valid ?s" and a: "active ?s"
    by (simp_all add: example_sink_simps)
  have ch: "filter (universe_changed ?s [1, 2, 3, 4, 9, 9, 9, 9]) [0..<2] = [1]"
    by (simp add: universe_changed_def NeedToOutputFrame_def byte_range_def example_sink_simps upt_rec)
  have q: "queued empty_batch (snd ?r) = [universe_msg ?s 1]"
    by (simp add: queued_PrepareData example_sink_simps ch)
  note T = changed_universes_queued[OF v a, of 7 "[1, 2, 3, 4, 9, 9, 9, 9]" empty_batch]
  from T have "messages (snd ?r) ARTNET_DEST_PORT = messages empty_batch ARTNET_DEST_PORT
             @ map (universe_msg ?s) (filter (universe_changed ?s [1, 2, 3, 4, 9, 9, 9, 9]) [0..<nat (universeCount ?s)])"
    by (rule conjunct1)
  then have m: "map msg_iov (messages (snd ?r) ARTNET_DEST_PORT) = [anIovecs_at 0 2]"
    by (simp add: example_sink_simps ch empty_batch_def universe_msg_iov)
  from T have "lastData (fst ?r) =
           (if queued empty_batch (snd ?r) \<noteq> []
            then Some (byte_range [1, 2, 3, 4, 9, 9, 9, 9] (startChannel ?s - 1)
                         (int (nat (universeCount ?s)) * channelCount ?s))
            else lastData ?s)"
    by (rule conjunct2[THEN conjunct2])
  then have l: "lastData (fst ?r) = Some [1, 2, 3, 4, 9, 9, 9, 9]"
    unfolding q by (simp add: example_sink_simps byte_range_def)
  from v a m l show ?thesis by (intro conjI)
qed

text \<open>
  Claim C4. When the port's messages hold no sync packet yet and one or more valid,
  active sinks call \<open>PostPrepareData\<close> on the batch one after the other, the result is
  the batch with a single sync packet appended: the port then holds exactly one sync
  packet, and any further \<open>PostPrepareData\<close> call, by any sink, leaves the batch as it is.
  \<open>PrepareData\<close>, of any sink on any batch, never changes the number of sync packets,
  so the datagrams the sinks contribute do not matter.
\<close>

theorem one_sync_packet_per_tick:
  assumes "sinks \<noteq> []" and "\<forall>s \<in> set sinks. valid s \<and> active s"
    and "sync_count (messages b ARTNET_DEST_PORT) = 0"
  shows "fold (PostPrepareData channelData) sinks b =
           b\<lparr>messages := (messages b)(ARTNET_DEST_PORT := messages b ARTNET_DEST_PORT @ [ArtNetSyncMsg])\<rparr>
       \<and> sync_count (messages (fold (PostPrepareData channelData) sinks b) ARTNET_DEST_PORT) = 1
       \<and> (\<forall>s'. PostPrepareData channelData s' (fold (PostPrepareData channelData) sinks b)
                 = fold (PostPrepareData channelData) sinks b)
       \<and> sync_count (messages (snd (PrepareData sock frame (other, b'))) ARTNET_DEST_PORT)
           = sync_count (messages b' ARTNET_DEST_PORT)"
proof -
  let ?b1 = "b\<lparr>messages := (messages b)(ARTNET_DEST_PORT := messages b ARTNET_DEST_PORT @ [ArtNetSyncMsg])\<rparr>"
  obtain s rest where sinks: "sinks = s # rest" using assms(1) by (cases sinks) auto
  have na: "\<not> already_added (messages b ARTNET_DEST_PORT)"
    using assms(3) by (simp add: sync_count_0)
  have first: "PostPrepareData channelData s b = ?b1"
    using assms(2) sinks na by (simp add: PostPrepareData_first)
  have added: "already_added (messages ?b1 ARTNET_DEST_PORT)"
    by (simp add: already_added_append_sync)
  have all: "fold (PostPrepareData channelData) sinks b = ?b1"
    using fold_PostPrepareData_already[OF added, of channelData rest] first sinks by simp
  have cnt: "sync_count (messages ?b1 ARTNET_DEST_PORT) = 1"
    using assms(3) by (simp add: sync_count_def ArtNetSyncMsg_def)
  have idem: "\<forall>s'. PostPrepareData channelData s' ?b1 = ?b1"
    using PostPrepareData_already[OF added] by blast
  show ?thesis unfolding all using cnt idem PrepareData_sync_count by blast
qed

theorem one_sync_packet_per_tick_witness:
  "[example_sink, example_sink\<lparr>this := 1\<rparr>] \<noteq> []
   \<and> valid example_sink \<and> active example_sink
   \<and> valid (example_sink\<lparr>this := 1\<rparr>) \<and> active (example_sink\<lparr>this := 1\<rparr>)
   \<and> sync_count (messages empty_batch ARTNET_DEST_PORT) = 0
   \<and> sync_count (messages (fold (PostPrepareData [1, 2, 3, 4, 9, 9, 9, 9])
         [example_sink, example_sink\<lparr>this := 1\<rparr>] empty_batch) ARTNET_DEST_PORT) = 1"
proof -
  have ne: "[example_sink, example_sink\<lparr>this := 1\<rparr>] \<noteq> []" by simp
  have va: "valid example_sink" "active example_sink"
    "valid (example_sink\<lparr>this := 1\<rparr>)" "active (example_sink\<lparr>this := 1\<rparr>)"
    by (simp_all add: example_sink_simps)
  then have all: "\<forall>s \<in> set [example_sink, example_sink\<lparr>this := 1\<rparr>]. valid s \<and> active s"
    by simp
  have z: "sync_count (messages empty_batch ARTNET_DEST_PORT) = 0"
    by (simp add: sync_count_def empty_batch_def)
  from one_sync_packet_per_tick[OF ne all z, of "[1, 2, 3, 4, 9, 9, 9, 9]"]
  have "sync_count (messages (fold (PostPrepareData [1, 2, 3, 4, 9, 9, 9, 9])
         [example_sink, example_sink\<lparr>this := 1\<rparr>] empty_batch) ARTNET_DEST_PORT) = 1"
    by (rule conjunct2[THEN conjunct1])
  with ne va z show ?thesis by (intro conjI)
qed

text \<open>
  Claim C5. A sink leaves the constructor with sequence number 1. After any sequence of
  calls the counter lies in 1..255; for a valid, active sink it is
  \<open>n mod 255 + 1\<close> after \<open>n\<close> calls of \<open>PrepareData\<close>, so it advances by one per
  call and goes from 255 back to 1. Every datagram that a further \<open>PrepareData\<close> queues
  is the datagram of a universe \<open>x\<close> whose header then carries that counter, which is
  not 0, at the sequence index.
\<close>

theorem sequence_byte_never_zero:
  assumes "s0 = fst (ArtNetOutputData self toInetAddr base config)"
    and "s = fst (run_calls calls s0)"
  shows "sequenceNumber s0 = 1
       \<and> 1 \<le> unat (sequenceNumber s) \<and> unat (sequenceNumber s) \<le> 255
       \<and> (valid s0 \<and> active s0 \<longrightarrow>
            unat (sequenceNumber s) = length (filter is_PrepareData calls) mod 255 + 1)
       \<and> (\<forall>m \<in> set (queued b (snd (PrepareData sock channelData (s, b)))).
            \<exists>x < nat (universeCount s).
               m = universe_msg s x
             \<and> anHeaders (fst (PrepareData sock channelData (s, b))) ! x ! ARTNET_SEQUENCE_INDEX
                 = sequenceNumber s
             \<and> sequenceNumber s \<noteq> 0)"
proof -
  have s0: "sequenceNumber s0 = 1" using assms(1) by (simp add: ctor_simps)
  have cnt: "unat (sequenceNumber s) = length (filter is_PrepareData calls) mod 255 + 1"
    if "valid s0" "active s0"
    using run_calls_sequenceNumber[OF that, of calls] s0 assms(2) by simp
  have rng: "1 \<le> unat (sequenceNumber s) \<and> unat (sequenceNumber s) \<le> 255"
  proof (cases "valid s0 \<and> active s0")
    case True
    then show ?thesis using cnt by simp
  next
    case False
    then show ?thesis using assms(2) s0 by (simp add: run_calls_inactive)
  qed
  then have nz: "sequenceNumber s \<noteq> 0" using unat_gt_0[of "sequenceNumber s"] by simp
  have ok: "headers_ok s"
    using assms by (simp add: run_calls_headers_ok ctor_headers_ok)
  have q: "\<forall>m \<in> set (queued b (snd (PrepareData sock channelData (s, b)))).
            \<exists>x < nat (universeCount s).
               m = universe_msg s x
             \<and> anHeaders (fst (PrepareData sock channelData (s, b))) ! x ! ARTNET_SEQUENCE_INDEX
                 = sequenceNumber s
             \<and> sequenceNumber s \<noteq> 0"
  proof (cases "valid s \<and> active s")
    case False
    then show ?thesis by (simp add: PrepareData_inactive queued_def)
  next
    case True
    then have v: "valid s" and a: "active s" by simp_all
    show ?thesis
      using nz PrepareData_sequence_byte[OF v a ok]
      by (auto simp: queued_PrepareData[OF v a])
  qed
  from s0 rng cnt q show ?thesis by blast
qed

theorem sequence_byte_never_zero_witness:
  "valid example_sink \<and> active example_sink
   \<and> sequenceNumber example_sink = 1
   \<and> unat (sequenceNumber (fst (run_calls (replicate 255 (PrepareData_call 7 [] empty_batch)) example_sink))) = 1
   \<and> map msg_iov (queued empty_batch (snd (PrepareData 7 [1, 2, 3, 4, 9, 9, 9, 9] (example_sink, empty_batch))))
       = [anIovecs_at 0 0, anIovecs_at 0 2]
   \<and> anHeaders (fst (PrepareData 7 [1, 2, 3, 4, 9, 9, 9, 9] (example_sink, empty_batch))) ! 1
        ! ARTNET_SEQUENCE_INDEX = 1"
proof -
  let ?cs = "replicate 255 (PrepareData_call 7 [] empty_batch)"
  let ?r = "PrepareData 7 [1, 2, 3, 4, 9, 9, 9, 9] (example_sink, empty_batch)"
  have va: "valid example_sink" "active example_sink" by (simp_all add: example_sink_simps)
  note T = sequence_byte_never_zero[OF example_sink_def refl, of ?cs]
  from T have one: "sequenceNumber example_sink = 1" by (rule conjunct1)
  from T have "valid example_sink \<and> active example_sink \<longrightarrow>
            unat (sequenceNumber (fst (run_calls ?cs example_sink))) = length (filter is_PrepareData ?cs) mod 255 + 1"
    by (rule conjunct2[THEN conjunct2, THEN conjunct2, THEN conjunct1])
  with va have cyc: "unat (sequenceNumber (fst (run_calls ?cs example_sink))) = 1"
    by simp
  have ch: "filter (universe_changed example_sink [1, 2, 3, 4, 9, 9, 9, 9]) [0..<2] = [0, 1]"
    by (simp add: universe_changed_def NeedToOutputFrame_def example_sink_simps upt_rec)
  have q: "queued empty_batch (snd ?r) = [universe_msg example_sink 0, universe_msg example_sink 1]"
    by (simp add: queued_PrepareData example_sink_simps ch)
  then have qi: "map msg_iov (queued empty_batch (snd ?r)) = [anIovecs_at 0 0, anIovecs_at 0 2]"
    by (simp add: universe_msg_iov example_sink_simps)
  have e: "example_sink = fst (run_calls [] example_sink)" by simp
  from sequence_byte_never_zero[OF example_sink_def e, of empty_batch 7 "[1, 2, 3, 4, 9, 9, 9, 9]"]
  have "\<forall>m \<in> set (queued empty_batch (snd ?r)).
          \<exists>x < nat (universeCount example_sink). m = universe_msg example_sink x
             \<and> anHeaders (fst ?r) ! x ! ARTNET_SEQUENCE_INDEX = sequenceNumber example_sink
             \<and> sequenceNumber example_sink \<noteq> 0"
    by (rule conjunct2[THEN conjunct2, THEN conjunct2, THEN conjunct2])
  then have "\<exists>x < nat (universeCount example_sink). universe_msg example_sink 1 = universe_msg example_sink x
             \<and> anHeaders (fst ?r) ! x ! ARTNET_SEQUENCE_INDEX = sequenceNumber example_sink"
    unfolding q by auto
  then have hb: "anHeaders (fst ?r) ! 1 ! ARTNET_SEQUENCE_INDEX = 1"
    by (auto simp: universe_msg_def one)
  from va one cyc qi hb show ?thesis by (intro conjI)
qed

text \<open>
  Claim C6. A unicast sink whose host does not resolve leaves the constructor with
  \<open>valid\<close> and \<open>active\<close> both false; any sequence of \<open>PrepareData\<close> and
  \<open>PostPrepareData\<close> calls then returns the sink and every message batch exactly as
  they were handed in: no datagram is queued and no socket is created.
\<close>

theorem unresolved_host_disables_sink:
  assumes "type base = ARTNET_TYPE_UNICAST"
    and "\<not> snd (toInetAddr (cfg_address config) (valid base))"
    and "s = fst (ArtNetOutputData self toInetAddr base config)"
  shows "\<not> valid s \<and> \<not> active s \<and> run_calls calls s = (s, map call_batch calls)"
proof -
  have v: "\<not> valid s"
    using assms by (simp add: ctor_flags ARTNET_TYPE_UNICAST_def ARTNET_TYPE_BROADCAST_def)
  moreover have "\<not> active s"
    using assms v by (simp add: ctor_flags ARTNET_TYPE_UNICAST_def ARTNET_TYPE_BROADCAST_def)
  ultimately show ?thesis by (simp add: run_calls_inactive)
qed

theorem unresolved_host_disables_sink_witness:
  "type (example_base\<lparr>type := 3\<rparr>) = ARTNET_TYPE_UNICAST
   \<and> \<not> snd (never_resolves (cfg_address example_config) (valid (example_base\<lparr>type := 3\<rparr>)))
   \<and> \<not> valid example_unicast_sink \<and> \<not> active example_unicast_sink
   \<and> run_calls [PrepareData_call 7 [1, 2, 3, 4] empty_batch, PostPrepareData_call [1, 2, 3, 4] empty_batch]
        example_unicast_sink = (example_unicast_sink, [empty_batch, empty_batch])"
proof -
  let ?cs = "[PrepareData_call 7 [1, 2, 3, 4] empty_batch, PostPrepareData_call [1, 2, 3, 4] empty_batch]"
  have t: "type (example_base\<lparr>type := 3\<rparr>) = ARTNET_TYPE_UNICAST"
    by (simp add: ARTNET_TYPE_UNICAST_def)
  have r: "\<not> snd (never_resolves (cfg_address example_config) (valid (example_base\<lparr>type := 3\<rparr>)))"
    by (simp add: never_resolves_def)
  note T = unresolved_host_disables_sink[OF t r example_unicast_sink_def, of ?cs]
  have m: "map call_batch ?cs = [empty_batch, empty_batch]" by simp
  from T have "\<not> valid example_unicast_sink" "\<not> active example_unicast_sink"
    "run_calls ?cs example_unicast_sink = (example_unicast_sink, [empty_batch, empty_batch])"
    unfolding m by blast+
  with t r show ?thesis by (intro conjI)
qed

text \<open>
  Claim C8. The header of every universe is 18 bytes, with the universe id at offset 14
  low byte first and the length at offset 16 high byte first (lemmas
  \<open>universe_header_length\<close>, \<open>universe_header_fields\<close> and \<open>ctor_iovecs\<close>), and the
  payload iovec has the length \<open>channelCount\<close>. Nothing makes that length even, although
  the comment on the length field of \<open>ArtNetHeader\<close> says "length always an even
  number": with \<open>channelCount = 511\<close> the constructor builds a template whose length
  field is \<open>0x01FF\<close> and whose payload has the odd length 511.
\<close>

theorem odd_channel_count_odd_payload:
  "anHeaders (fst (ArtNetOutputData 0 never_resolves (example_base\<lparr>channelCount := 511\<rparr>)
       (example_config\<lparr>cfg_universeCount := Some 1\<rparr>)))
     = [[0x41, 0x72, 0x74, 0x2D, 0x4E, 0x65, 0x74, 0x00, 0x00, 0x50, 0x00, 0x0E,
         0x00, 0x00, 0x00, 0x00, 0x01, 0xFF]]
   \<and> iov_len (anIovecs (fst (ArtNetOutputData 0 never_resolves (example_base\<lparr>channelCount := 511\<rparr>)
       (example_config\<lparr>cfg_universeCount := Some 1\<rparr>))) ! 1) = 511
   \<and> odd (iov_len (anIovecs (fst (ArtNetOutputData 0 never_resolves (example_base\<lparr>channelCount := 511\<rparr>)
       (example_config\<lparr>cfg_universeCount := Some 1\<rparr>))) ! 1))"
  by (simp add: ArtNetOutputData_def Let_def UDPOutputData.defs ArtNetOutputData.defs
      example_base_def example_config_def build_universe_def universe_header_def ArtNetHeader_def
      ARTNET_UNIVERSE_INDEX_def ARTNET_LENGTH_INDEX_def ARTNET_TYPE_BROADCAST_def
      signed_divide_int_def signed_modulo_int_def size_t_def)

section \<open>Framebuffer matrix output (src/channeloutput/FBMatrix.cpp)\<close>

text \<open>
  The kernel structures hold \<open>__u32\<close> fields, \<open>32 word\<close> here, and so are
  \<open>m_channelCount\<close> (\<open>unsigned int\<close>) and \<open>m_width\<close>, \<open>m_height\<close>: the test of
  line 192 compares \<open>m_channelCount\<close> with the \<open>int\<close> product converted to
  \<open>unsigned int\<close>, which is equality of 32-bit words (the product wraps here, where the
  source has undefined behaviour on overflow).
\<close>

record fb_bitfield =
  bf_offset :: "32 word"
  bf_length :: "32 word"

record fb_var_screeninfo =
  xres :: "32 word"
  yres :: "32 word"
  xres_virtual :: "32 word"
  yres_virtual :: "32 word"
  xoffset :: "32 word"
  yoffset :: "32 word"
  bits_per_pixel :: "32 word"
  red :: fb_bitfield
  green :: fb_bitfield
  blue :: fb_bitfield
  transp :: fb_bitfield

record fb_fix_screeninfo =
  line_length :: "32 word"

datatype ScalingType = HARDWARE | SOFTWARE | NONE

text \<open>
  The device and the kernel are explicit. \<open>fb_driver\<close> holds what the system calls
  answer: the descriptor \<open>open\<close> gives for a path, whether the two GET ioctls succeed
  and the fixed information for a mode, which modes FBIOPUT_VSCREENINFO accepts, which
  lengths \<open>mmap\<close> can map, which pans FBIOPAN_DISPLAY carries out, and the result of
  \<open>ChannelOutputBase::Init\<close> (base class, not among the sources). \<open>fb_world\<close> is
  the display: the mode the driver currently shows (its \<open>yoffset\<close> selects the
  displayed half of a double-height virtual screen), the bytes of the device memory, and
  the log of the calls made. An accepted FBIOPUT_VSCREENINFO sets the shown mode; an
  accepted FBIOPAN_DISPLAY moves the display to the offsets it is given, a refused one
  leaves the display where it was, and the source goes on either way (it ignores the
  result of that call).
\<close>

datatype fb_call =
    call_open string
  | call_close int
  | FBIOGET_VSCREENINFO
  | FBIOPUT_VSCREENINFO fb_var_screeninfo
  | FBIOGET_FSCREENINFO
  | KDSETMODE_GRAPHICS
  | call_mmap "32 word"
  | call_memcpy nat nat
  | FBIOPAN_DISPLAY fb_var_screeninfo

record fb_driver =
  d_open :: "string \<Rightarrow> int"
  d_get_vinfo_ok :: bool
  d_put_vinfo_ok :: "fb_var_screeninfo \<Rightarrow> bool"
  d_finfo :: "fb_var_screeninfo \<Rightarrow> fb_fix_screeninfo option"
  d_mmap_ok :: "32 word \<Rightarrow> bool"
  d_pan_ok :: "fb_var_screeninfo \<Rightarrow> bool"
  d_base_Init :: int

record fb_world =
  w_mode :: fb_var_screeninfo
  w_mem :: "byte list"
  w_log :: "fb_call list"

record FBMatrixOutput =
  m_startChannel :: "32 word"
  m_channelCount :: "32 word"
  m_scaling :: ScalingType
  m_fbFd :: int
  m_ttyFd :: int
  m_width :: "32 word"
  m_height :: "32 word"
  m_useRGB :: bool
  m_inverted :: int
  m_bpp :: "32 word"
  m_device :: string
  m_vInfo :: fb_var_screeninfo
  m_vInfoOrig :: fb_var_screeninfo
  m_fInfo :: fb_fix_screeninfo
  m_lineLength :: "32 word"
  m_screenSize :: "32 word"
  m_fbp :: "32 word option"
  m_frame :: "byte list"
  m_isDoubleBuffered :: bool
  m_topFrame :: bool

definition zero_bitfield :: fb_bitfield where
  "zero_bitfield = \<lparr>bf_offset = 0, bf_length = 0\<rparr>"

definition zero_vinfo :: fb_var_screeninfo where
  "zero_vinfo = \<lparr>xres = 0, yres = 0, xres_virtual = 0, yres_virtual = 0, xoffset = 0,
     yoffset = 0, bits_per_pixel = 0, red = zero_bitfield, green = zero_bitfield,
     blue = zero_bitfield, transp = zero_bitfield\<rparr>"

text \<open>The constructor, lines 51-72. \<open>m_vInfo\<close>, \<open>m_vInfoOrig\<close> and \<open>m_fInfo\<close> are
  not initialised by it; they are read only after \<open>Init\<close> has filled them.\<close>

definition FBMatrixOutput :: "32 word \<Rightarrow> 32 word \<Rightarrow> FBMatrixOutput" where
  "FBMatrixOutput sc cc =
     \<lparr>m_startChannel = sc, m_channelCount = cc, m_scaling = HARDWARE,
      m_fbFd = 0, m_ttyFd = 0, m_width = 0, m_height = 0, m_useRGB = False, m_inverted = 0,
      m_bpp = 24, m_device = ''/dev/fb0'', m_vInfo = zero_vinfo, m_vInfoOrig = zero_vinfo,
      m_fInfo = \<lparr>line_length = 0\<rparr>, m_lineLength = 0, m_screenSize = 0, m_fbp = None,
      m_frame = [], m_isDoubleBuffered = False, m_topFrame = True\<rparr>"

text \<open>The keys of the JSON configuration \<open>Init\<close> reads.\<close>

record FBMatrixConfig =
  fb_width :: "32 word"
  fb_height :: "32 word"
  fb_colorOrder :: string
  fb_invert :: int
  fb_device :: string
  fb_scaling :: "string option"

definition do_call :: "fb_call \<Rightarrow> fb_world \<Rightarrow> fb_world" where
  "do_call c w = w\<lparr>w_log := w_log w @ [c]\<rparr>"

text \<open>\<open>ioctl(m_fbFd, FBIOPUT_VSCREENINFO, &v)\<close>: the world after the call and whether
  the call failed (the ioctl's nonzero result).\<close>

definition put_vinfo :: "fb_driver \<Rightarrow> fb_var_screeninfo \<Rightarrow> fb_world \<Rightarrow> fb_world \<times> bool" where
  "put_vinfo d v w =
     (if d_put_vinfo_ok d v then ((do_call (FBIOPUT_VSCREENINFO v) w)\<lparr>w_mode := v\<rparr>, False)
      else (do_call (FBIOPUT_VSCREENINFO v) w, True))"

text \<open>
  \<open>Init\<close>, lines 98-275, in stages, each exit of the source one branch, written
  last stage first: \<open>Init_map\<close> maps the memory (lines 212-226) and ends with the
  base class; \<open>Init_check\<close> reads the fixed information, checks the channel count and
  opens the console (lines 186-210); \<open>Init_put\<close> sets the mode, with the fall back to
  a single buffer (lines 174-184); \<open>Init_mode\<close> is the mode requested (lines
  143-172); \<open>Init_get\<close> reads the current mode (lines 127-141); \<open>Init_config\<close>
  reads the configuration (lines 102-118) and \<open>Init\<close> opens the device. The result is the return value, the object and the world. The
  RGB565 lookup table of lines 228-272 takes no part in the control flow and is left out.
\<close>

definition Init_mode :: "FBMatrixOutput \<Rightarrow> FBMatrixOutput" where
  "Init_mode s =
     (let s = (if m_bpp s = 16
               then s\<lparr>m_vInfo := (m_vInfo s)\<lparr>
                      red := \<lparr>bf_offset = 11, bf_length = 5\<rparr>,
                      green := \<lparr>bf_offset = 5, bf_length = 6\<rparr>,
                      blue := \<lparr>bf_offset = 0, bf_length = 5\<rparr>,
                      transp := \<lparr>bf_offset = 0, bf_length = 0\<rparr>\<rparr>\<rparr>
               else s);
          s = s\<lparr>m_isDoubleBuffered := True\<rparr>;
          s = (if m_scaling s = HARDWARE
               then s\<lparr>m_vInfo := (m_vInfo s)\<lparr>xres := m_width s, yres := m_height s\<rparr>\<rparr>
               else s);
          s = s\<lparr>m_vInfo := (m_vInfo s)\<lparr>xres_virtual := xres (m_vInfo s)\<rparr>\<rparr>;
          s = s\<lparr>m_vInfo := (m_vInfo s)\<lparr>yres_virtual := yres (m_vInfo s) * 2\<rparr>\<rparr>
      in s)"

definition Init_map ::
  "fb_driver \<Rightarrow> FBMatrixOutput \<times> fb_world \<Rightarrow> int \<times> FBMatrixOutput \<times> fb_world" where
  "Init_map d sw =
     (let s = fst sw; w = snd sw;
          s = s\<lparr>m_lineLength := line_length (m_fInfo s)\<rparr>;
          s = s\<lparr>m_screenSize := line_length (m_fInfo s) * yres (m_vInfo s)\<rparr>;
          len = m_screenSize s * (if m_isDoubleBuffered s then 2 else 1);
          w = do_call (call_mmap len) w;
          s = s\<lparr>m_fbp := (if d_mmap_ok d len then Some len else None)\<rparr>;
          sw = (if m_fbp s = None
                then (s\<lparr>m_isDoubleBuffered := False,
                        m_fbp := (if d_mmap_ok d (m_screenSize s) then Some (m_screenSize s) else None)\<rparr>,
                      do_call (call_mmap (m_screenSize s)) w)
                else (s, w));
          s = fst sw; w = snd sw;
          s = s\<lparr>m_frame := replicate (unat (m_screenSize s)) 0\<rparr>
      in if m_fbp s = None
         then (0, s, do_call (call_close (m_fbFd s)) (fst (put_vinfo d (m_vInfoOrig s) w)))
         else (d_base_Init d, s, w))"

definition Init_check ::
  "fb_driver \<Rightarrow> FBMatrixOutput \<times> fb_world \<Rightarrow> int \<times> FBMatrixOutput \<times> fb_world" where
  "Init_check d sw =
     (let s = fst sw; w = snd sw;
          w = do_call FBIOGET_FSCREENINFO w
      in case d_finfo d (w_mode w) of
           None \<Rightarrow> (0, s, do_call (call_close (m_fbFd s)) w)
         | Some fi \<Rightarrow>
             (let s = s\<lparr>m_fInfo := fi\<rparr> in
              if m_channelCount s \<noteq> m_width s * m_height s * 3
              then (0, s, do_call (call_close (m_fbFd s)) (fst (put_vinfo d (m_vInfoOrig s) w)))
              else if m_device s = ''/dev/fb0''
              then (let s = s\<lparr>m_ttyFd := d_open d ''/dev/console''\<rparr>;
                        w = do_call (call_open ''/dev/console'') w
                    in if m_ttyFd s = 0
                       then (0, s, do_call (call_close (m_fbFd s)) (fst (put_vinfo d (m_vInfoOrig s) w)))
                       else Init_map d (s, do_call KDSETMODE_GRAPHICS w))
              else Init_map d (s, w)))"

definition Init_put ::
  "fb_driver \<Rightarrow> FBMatrixOutput \<times> fb_world \<Rightarrow> int \<times> FBMatrixOutput \<times> fb_world" where
  "Init_put d sw =
     (let s = fst sw; w = snd sw;
          r = put_vinfo d (m_vInfo s) w
      in if snd r
         then
           (let s = s\<lparr>m_vInfo := (m_vInfo s)\<lparr>yres_virtual := yres (m_vInfo s)\<rparr>\<rparr>;
                s = s\<lparr>m_isDoubleBuffered := False\<rparr>;
                r = put_vinfo d (m_vInfo s) (fst r)
            in if snd r then (0, s, do_call (call_close (m_fbFd s)) (fst r))
               else Init_check d (s, fst r))
         else Init_check d (s, fst r))"

definition Init_get ::
  "fb_driver \<Rightarrow> FBMatrixOutput \<times> fb_world \<Rightarrow> int \<times> FBMatrixOutput \<times> fb_world" where
  "Init_get d sw =
     (let s = fst sw; w = snd sw;
          w = do_call FBIOGET_VSCREENINFO w
      in if \<not> d_get_vinfo_ok d then (0, s, do_call (call_close (m_fbFd s)) w)
         else
           (let s = s\<lparr>m_vInfo := w_mode w\<rparr>;
                s = s\<lparr>m_vInfoOrig := m_vInfo s\<rparr>;
                s = s\<lparr>m_bpp := bits_per_pixel (m_vInfo s)\<rparr>
            in if m_bpp s \<noteq> 32 \<and> m_bpp s \<noteq> 24 \<and> m_bpp s \<noteq> 16
               then (0, s, do_call (call_close (m_fbFd s)) w)
               else Init_put d (Init_mode s, w)))"

definition Init_config :: "FBMatrixConfig \<Rightarrow> FBMatrixOutput \<Rightarrow> FBMatrixOutput" where
  "Init_config config s =
     (let s = s\<lparr>m_width := fb_width config, m_height := fb_height config,
                m_useRGB := (fb_colorOrder config = ''RGB''), m_inverted := fb_invert config,
                m_device := ''/dev/'' @ fb_device config\<rparr>;
          sc = (case fb_scaling config of None \<Rightarrow> ''Hardware'' | Some v \<Rightarrow> v)
      in if sc = ''Hardware'' then s\<lparr>m_scaling := HARDWARE\<rparr>
         else if sc = ''Software'' then s\<lparr>m_scaling := SOFTWARE\<rparr>
         else if sc = ''None'' then s\<lparr>m_scaling := NONE\<rparr>
         else s)"

definition Init ::
  "fb_driver \<Rightarrow> FBMatrixConfig \<Rightarrow> FBMatrixOutput \<times> fb_world \<Rightarrow> int \<times> FBMatrixOutput \<times> fb_world" where
  "Init d config sw =
     (let s = Init_config config (fst sw); w = snd sw;
          s = s\<lparr>m_fbFd := d_open d (m_device s)\<rparr>;
          w = do_call (call_open (m_device s)) w
      in if m_fbFd s = 0 then (0, s, w) else Init_get d (s, w))"

text \<open>
  \<open>SendData\<close>, lines 428-443. \<open>memcpy(dst, m_frame, m_screenSize)\<close> overwrites
  \<open>m_screenSize\<close> bytes of the device memory from the offset of \<open>dst\<close> in the mapping.
\<close>

definition memcpy_at :: "nat \<Rightarrow> byte list \<Rightarrow> nat \<Rightarrow> byte list \<Rightarrow> byte list" where
  "memcpy_at off src n mem = take off mem @ take n src @ drop (off + n) mem"

definition SendData ::
  "fb_driver \<Rightarrow> FBMatrixOutput \<times> fb_world \<Rightarrow> 32 word \<times> FBMatrixOutput \<times> fb_world" where
  "SendData d sw =
     (let s = fst sw; w = snd sw;
          dst = (0 :: nat);
          shifted = (m_isDoubleBuffered s \<and> \<not> m_topFrame s);
          dst = (if shifted then dst + unat (m_screenSize s) else dst);
          s = (if shifted then s\<lparr>m_vInfo := (m_vInfo s)\<lparr>yoffset := yres (m_vInfo s)\<rparr>\<rparr>
               else s\<lparr>m_vInfo := (m_vInfo s)\<lparr>yoffset := 0\<rparr>\<rparr>);
          s = s\<lparr>m_topFrame := \<not> m_topFrame s\<rparr>;
          w = (do_call (call_memcpy dst (unat (m_screenSize s))) w)
                \<lparr>w_mem := memcpy_at dst (m_frame s) (unat (m_screenSize s)) (w_mem w)\<rparr>;
          w = (if m_isDoubleBuffered s
               then (if d_pan_ok d (m_vInfo s)
                     then (do_call (FBIOPAN_DISPLAY (m_vInfo s)) w)
                            \<lparr>w_mode := (w_mode w)\<lparr>xoffset := xoffset (m_vInfo s),
                                                    yoffset := yoffset (m_vInfo s)\<rparr>\<rparr>
                     else do_call (FBIOPAN_DISPLAY (m_vInfo s)) w)
               else w)
      in (m_channelCount s, s, w))"

text \<open>
  Consecutive \<open>SendData\<close> calls. \<open>PrepData\<close> runs before each and writes nothing but
  \<open>m_frame\<close>; it is not modelled, each call takes whatever frame it was left.
\<close>

fun SendData_frames ::
  "fb_driver \<Rightarrow> byte list list \<Rightarrow> FBMatrixOutput \<times> fb_world \<Rightarrow> FBMatrixOutput \<times> fb_world" where
  "SendData_frames d [] sw = sw"
| "SendData_frames d (f # fs) sw =
     SendData_frames d fs (snd (SendData d ((fst sw)\<lparr>m_frame := f\<rparr>, snd sw)))"

text \<open>Line 213, which holds after every successful \<open>Init\<close>.\<close>

definition screenSize_ok :: "FBMatrixOutput \<Rightarrow> bool" where
  "screenSize_ok s = (m_screenSize s = line_length (m_fInfo s) * yres (m_vInfo s))"

text \<open>A 24-bit device that accepts every mode, shown in 640x480 at \<open>yoffset\<close> 0, and a
  4x4 matrix of 48 channels on it.\<close>

definition example_mode :: fb_var_screeninfo where
  "example_mode = \<lparr>xres = 640, yres = 480, xres_virtual = 640, yres_virtual = 480, xoffset = 0,
     yoffset = 0, bits_per_pixel = 24, red = zero_bitfield, green = zero_bitfield,
     blue = zero_bitfield, transp = zero_bitfield\<rparr>"

definition example_driver :: fb_driver where
  "example_driver = \<lparr>d_open = (\<lambda>path. 3), d_get_vinfo_ok = True, d_put_vinfo_ok = (\<lambda>v. True),
     d_finfo = (\<lambda>v. Some \<lparr>line_length = xres_virtual v * 3\<rparr>), d_mmap_ok = (\<lambda>len. True),
     d_pan_ok = (\<lambda>v. True), d_base_Init = 1\<rparr>"

definition example_world :: fb_world where
  "example_world = \<lparr>w_mode = example_mode, w_mem = [], w_log = []\<rparr>"

definition example_fb_config :: FBMatrixConfig where
  "example_fb_config = \<lparr>fb_width = 4, fb_height = 4, fb_colorOrder = ''RGB'', fb_invert = 0,
     fb_device = ''fb1'', fb_scaling = None\<rparr>"

definition example_fb :: "FBMatrixOutput \<times> fb_world" where
  "example_fb = snd (Init example_driver example_fb_config (FBMatrixOutput 0 48, example_world))"

text \<open>The same device refusing every pan away from row 0, and the matrix on it.\<close>

definition fixed_display_driver :: fb_driver where
  "fixed_display_driver = example_driver\<lparr>d_pan_ok := (\<lambda>v. yoffset v = 0)\<rparr>"

definition example_fixed_fb :: "FBMatrixOutput \<times> fb_world" where
  "example_fixed_fb = snd (Init fixed_display_driver example_fb_config (FBMatrixOutput 0 48, example_world))"

text \<open>A matrix of no pixel and no channel on the first device.\<close>

definition empty_fb_config :: FBMatrixConfig where
  "empty_fb_config = example_fb_config\<lparr>fb_width := 0, fb_height := 0\<rparr>"

definition example_empty_fb :: "FBMatrixOutput \<times> fb_world" where
  "example_empty_fb = snd (Init example_driver empty_fb_config (FBMatrixOutput 0 0, example_world))"

text \<open>
  A configuration of width -1 and height 1 that leaves the device's resolution alone,
  and one of 40000 by 40000 pixels: \<open>width * height * 3\<close> is -3 for the first and
  4800000000 for the second, which are 4294967293 and 505032704 as \<open>unsigned int\<close>.
\<close>

definition negative_fb_config :: FBMatrixConfig where
  "negative_fb_config = example_fb_config\<lparr>fb_width := word_of_int (- 1), fb_height := 1,
     fb_scaling := Some ''None''\<rparr>"

definition huge_fb_config :: FBMatrixConfig where
  "huge_fb_config = example_fb_config\<lparr>fb_width := 40000, fb_height := 40000\<rparr>"

text \<open>The same device refusing the double-height virtual screen, and the matrix on it.\<close>

definition single_buffer_driver :: fb_driver where
  "single_buffer_driver = example_driver\<lparr>d_put_vinfo_ok := (\<lambda>v. yres_virtual v = yres v)\<rparr>"

definition example_single_fb :: "FBMatrixOutput \<times> fb_world" where
  "example_single_fb = snd (Init single_buffer_driver example_fb_config (FBMatrixOutput 0 48, example_world))"

subsection \<open>\<open>SendData\<close>\<close>

lemma SendData_fields:
  "m_isDoubleBuffered (fst (snd (SendData d (s, w)))) = m_isDoubleBuffered s"
  "m_screenSize (fst (snd (SendData d (s, w)))) = m_screenSize s"
  "yres (m_vInfo (fst (snd (SendData d (s, w))))) = yres (m_vInfo s)"
  "m_topFrame (fst (snd (SendData d (s, w)))) = (\<not> m_topFrame s)"
  "m_channelCount (fst (snd (SendData d (s, w)))) = m_channelCount s"
  "fst (SendData d (s, w)) = m_channelCount s"
  by (simp_all add: SendData_def Let_def)

lemma SendData_frame_fields:
  "m_isDoubleBuffered (fst (snd (SendData d (s\<lparr>m_frame := f\<rparr>, w)))) = m_isDoubleBuffered s"
  "m_screenSize (fst (snd (SendData d (s\<lparr>m_frame := f\<rparr>, w)))) = m_screenSize s"
  "yres (m_vInfo (fst (snd (SendData d (s\<lparr>m_frame := f\<rparr>, w))))) = yres (m_vInfo s)"
  "m_topFrame (fst (snd (SendData d (s\<lparr>m_frame := f\<rparr>, w)))) = (\<not> m_topFrame s)"
  by (simp_all add: SendData_fields)

lemma SendData_frames_fields:
  "m_isDoubleBuffered (fst (SendData_frames d fs (s, w))) = m_isDoubleBuffered s
   \<and> m_screenSize (fst (SendData_frames d fs (s, w))) = m_screenSize s
   \<and> yres (m_vInfo (fst (SendData_frames d fs (s, w)))) = yres (m_vInfo s)
   \<and> m_topFrame (fst (SendData_frames d fs (s, w))) = (even (length fs) = m_topFrame s)"
proof (induction fs arbitrary: s w)
  case Nil
  then show ?case by simp
next
  case (Cons f fs)
  obtain s' w' where sw: "snd (SendData d (s\<lparr>m_frame := f\<rparr>, w)) = (s', w')"
    by (cases "snd (SendData d (s\<lparr>m_frame := f\<rparr>, w))")
  have s': "s' = fst (snd (SendData d (s\<lparr>m_frame := f\<rparr>, w)))" using sw by simp
  show ?case
    using Cons.IH[of s' w'] by (auto simp: sw) (simp_all add: s' SendData_frame_fields)
qed

lemma SendData_double:
  assumes "m_isDoubleBuffered s"
  shows "w_log (snd (snd (SendData d (s, w)))) =
           w_log w @ [call_memcpy (if m_topFrame s then 0 else unat (m_screenSize s)) (unat (m_screenSize s)),
                      FBIOPAN_DISPLAY (m_vInfo (fst (snd (SendData d (s, w)))))]"
    and "yoffset (m_vInfo (fst (snd (SendData d (s, w))))) = (if m_topFrame s then 0 else yres (m_vInfo s))"
    and "\<forall>v. d_pan_ok d v \<Longrightarrow>
         yoffset (w_mode (snd (snd (SendData d (s, w))))) = (if m_topFrame s then 0 else yres (m_vInfo s))"
  using assms by (simp_all add: SendData_def Let_def do_call_def)

lemma SendData_single:
  assumes "\<not> m_isDoubleBuffered s"
  shows "w_log (snd (snd (SendData d (s, w)))) = w_log w @ [call_memcpy 0 (unat (m_screenSize s))]"
    and "w_mode (snd (snd (SendData d (s, w)))) = w_mode w"
  using assms by (simp_all add: SendData_def Let_def do_call_def)

lemma SendData_frames_displayed:
  assumes "m_isDoubleBuffered s" and "fs \<noteq> []" and "\<forall>v. d_pan_ok d v"
  shows "yoffset (w_mode (snd (SendData_frames d fs (s, w))))
         = (if even (length fs) = m_topFrame s then yres (m_vInfo s) else 0)"
  using assms
proof (induction fs arbitrary: s w)
  case Nil
  then show ?case by simp
next
  case (Cons f fs)
  obtain s' w' where sw: "snd (SendData d (s\<lparr>m_frame := f\<rparr>, w)) = (s', w')"
    by (cases "snd (SendData d (s\<lparr>m_frame := f\<rparr>, w))")
  have s': "s' = fst (snd (SendData d (s\<lparr>m_frame := f\<rparr>, w)))"
    and w': "w' = snd (snd (SendData d (s\<lparr>m_frame := f\<rparr>, w)))" using sw by simp_all
  have d': "m_isDoubleBuffered s'" using Cons.prems by (simp add: s' SendData_frame_fields)
  show ?case
  proof (cases "fs = []")
    case True
    then show ?thesis
      using SendData_double(3)[of "s\<lparr>m_frame := f\<rparr>" d w] Cons.prems by (simp add: sw w'[symmetric])
  next
    case False
    from Cons.IH[OF d' False Cons.prems(3), of w'] show ?thesis
      by (simp add: sw) (simp add: s' SendData_frame_fields)
  qed
qed

subsection \<open>\<open>Init\<close>\<close>

lemma do_call_simps:
  "w_mode (do_call c w) = w_mode w" "w_log (do_call c w) = w_log w @ [c]"
  by (simp_all add: do_call_def)

lemma put_vinfo_simps:
  "w_log (fst (put_vinfo d v w)) = w_log w @ [FBIOPUT_VSCREENINFO v]"
  "w_mode (fst (put_vinfo d v w)) = (if d_put_vinfo_ok d v then v else w_mode w)"
  "snd (put_vinfo d v w) = (\<not> d_put_vinfo_ok d v)"
  by (simp_all add: put_vinfo_def do_call_def)

lemma Init_map_fields:
  "m_channelCount (fst (snd (Init_map d (s, w)))) = m_channelCount s"
  "m_width (fst (snd (Init_map d (s, w)))) = m_width s"
  "m_height (fst (snd (Init_map d (s, w)))) = m_height s"
  "m_topFrame (fst (snd (Init_map d (s, w)))) = m_topFrame s"
  by (simp_all add: Init_map_def Let_def)

lemma Init_check_fields:
  "m_channelCount (fst (snd (Init_check d (s, w)))) = m_channelCount s"
  "m_width (fst (snd (Init_check d (s, w)))) = m_width s"
  "m_height (fst (snd (Init_check d (s, w)))) = m_height s"
  "m_topFrame (fst (snd (Init_check d (s, w)))) = m_topFrame s"
  by (simp_all add: Init_check_def Let_def Init_map_fields split: option.split)

lemma Init_mode_fields:
  "m_channelCount (Init_mode s) = m_channelCount s"
  "m_width (Init_mode s) = m_width s"
  "m_height (Init_mode s) = m_height s"
  "m_topFrame (Init_mode s) = m_topFrame s"
  "m_fbFd (Init_mode s) = m_fbFd s"
  "m_vInfoOrig (Init_mode s) = m_vInfoOrig s"
  by (simp_all add: Init_mode_def Let_def)

lemma Init_put_fields:
  "m_channelCount (fst (snd (Init_put d (s, w)))) = m_channelCount s"
  "m_width (fst (snd (Init_put d (s, w)))) = m_width s"
  "m_height (fst (snd (Init_put d (s, w)))) = m_height s"
  "m_topFrame (fst (snd (Init_put d (s, w)))) = m_topFrame s"
  by (simp_all add: Init_put_def Let_def Init_check_fields)

lemma Init_get_fields:
  "m_channelCount (fst (snd (Init_get d (s, w)))) = m_channelCount s"
  "m_width (fst (snd (Init_get d (s, w)))) = m_width s"
  "m_height (fst (snd (Init_get d (s, w)))) = m_height s"
  "m_topFrame (fst (snd (Init_get d (s, w)))) = m_topFrame s"
  by (simp_all add: Init_get_def Let_def Init_put_fields Init_mode_fields)

lemma Init_config_fields:
  "m_channelCount (Init_config config s) = m_channelCount s"
  "m_width (Init_config config s) = fb_width config"
  "m_height (Init_config config s) = fb_height config"
  "m_topFrame (Init_config config s) = m_topFrame s"
  by (simp_all add: Init_config_def Let_def)

lemma Init_fields:
  "m_channelCount (fst (snd (Init d config (s, w)))) = m_channelCount s"
  "m_width (fst (snd (Init d config (s, w)))) = fb_width config"
  "m_height (fst (snd (Init d config (s, w)))) = fb_height config"
  "m_topFrame (fst (snd (Init d config (s, w)))) = m_topFrame s"
  by (simp_all add: Init_def Let_def Init_get_fields Init_config_fields)

lemma Init_check_mismatch:
  assumes "m_channelCount s \<noteq> m_width s * m_height s * 3"
  shows "fst (Init_check d (s, w)) = 0"
  using assms by (simp add: Init_check_def Let_def split: option.split)

lemma Init_put_mismatch:
  assumes "m_channelCount s \<noteq> m_width s * m_height s * 3"
  shows "fst (Init_put d (s, w)) = 0"
  using assms by (simp add: Init_put_def Let_def Init_check_mismatch)

lemma Init_get_mismatch:
  assumes "m_channelCount s \<noteq> m_width s * m_height s * 3"
  shows "fst (Init_get d (s, w)) = 0"
  using assms by (simp add: Init_get_def Let_def Init_put_mismatch Init_mode_fields)

lemma Init_mismatch:
  assumes "m_channelCount s \<noteq> fb_width config * fb_height config * 3"
  shows "fst (Init d config (s, w)) = 0"
  using assms by (simp add: Init_def Let_def Init_get_mismatch Init_config_fields)

lemma Init_success_channel_count:
  assumes "fst (Init d config (s, w)) \<noteq> 0"
  shows "m_channelCount (fst (snd (Init d config (s, w))))
         = m_width (fst (snd (Init d config (s, w)))) * m_height (fst (snd (Init d config (s, w)))) * 3"
  using assms Init_mismatch[of s config d w] by (auto simp: Init_fields)

lemma Init_check_restores:
  assumes "d_finfo d (w_mode w) = Some fi"
    and "m_channelCount s \<noteq> m_width s * m_height s * 3"
  shows "fst (Init_check d (s, w)) = 0"
    and "w_log (snd (snd (Init_check d (s, w)))) =
           w_log w @ [FBIOGET_FSCREENINFO, FBIOPUT_VSCREENINFO (m_vInfoOrig s), call_close (m_fbFd s)]"
    and "d_put_vinfo_ok d (m_vInfoOrig s) \<Longrightarrow> w_mode (snd (snd (Init_check d (s, w)))) = m_vInfoOrig s"
  using assms by (simp_all add: Init_check_def Let_def do_call_def put_vinfo_def)

lemma Init_check_closes:
  assumes "m_channelCount s \<noteq> m_width s * m_height s * 3"
  shows "last (w_log (snd (snd (Init_check d (s, w))))) = call_close (m_fbFd s)"
  using assms by (simp add: Init_check_def Let_def do_call_simps put_vinfo_simps split: option.split)

lemma Init_check_mode:
  assumes "m_channelCount s \<noteq> m_width s * m_height s * 3"
    and "d_finfo d (w_mode w) \<noteq> None" and "d_put_vinfo_ok d (m_vInfoOrig s)"
  shows "w_mode (snd (snd (Init_check d (s, w)))) = m_vInfoOrig s"
  using assms by (auto simp: Init_check_def Let_def do_call_simps put_vinfo_simps)

lemma Init_put_closes:
  assumes "m_channelCount s \<noteq> m_width s * m_height s * 3"
  shows "last (w_log (snd (snd (Init_put d (s, w))))) = call_close (m_fbFd s)"
  using assms by (simp add: Init_put_def Let_def do_call_simps Init_check_closes)

lemma Init_put_mode:
  assumes "m_channelCount s \<noteq> m_width s * m_height s * 3"
    and "\<forall>v. d_finfo d v \<noteq> None" and "d_put_vinfo_ok d (m_vInfoOrig s)"
    and "w_mode w = m_vInfoOrig s"
  shows "w_mode (snd (snd (Init_put d (s, w)))) = m_vInfoOrig s"
  using assms
  by (simp add: Init_put_def Let_def do_call_simps put_vinfo_simps Init_check_mode)

lemma Init_get_closes:
  assumes "m_channelCount s \<noteq> m_width s * m_height s * 3"
  shows "last (w_log (snd (snd (Init_get d (s, w))))) = call_close (m_fbFd s)"
  using assms
  by (simp add: Init_get_def Let_def do_call_simps Init_put_closes Init_mode_fields)

lemma Init_get_mode:
  assumes "m_channelCount s \<noteq> m_width s * m_height s * 3"
    and "\<forall>v. d_finfo d v \<noteq> None" and "d_put_vinfo_ok d (w_mode w)"
  shows "w_mode (snd (snd (Init_get d (s, w)))) = w_mode w"
  using assms
  by (simp add: Init_get_def Let_def do_call_simps Init_put_mode Init_mode_fields)

lemma Init_rejects_wrong_channel_count:
  assumes "m_channelCount s \<noteq> fb_width config * fb_height config * 3"
  shows "fst (Init d config (s, w)) = 0
       \<and> (d_open d (''/dev/'' @ fb_device config) \<noteq> 0 \<longrightarrow>
            last (w_log (snd (snd (Init d config (s, w)))))
              = call_close (d_open d (''/dev/'' @ fb_device config)))
       \<and> ((\<forall>v. d_finfo d v \<noteq> None) \<and> d_put_vinfo_ok d (w_mode w) \<longrightarrow>
            w_mode (snd (snd (Init d config (s, w)))) = w_mode w)"
proof -
  let ?s = "(Init_config config s)\<lparr>m_fbFd := d_open d (m_device (Init_config config s))\<rparr>"
  let ?w = "do_call (call_open (m_device (Init_config config s))) w"
  have dev: "m_device (Init_config config s) = ''/dev/'' @ fb_device config"
    by (simp add: Init_config_def Let_def)
  have mm: "m_channelCount ?s \<noteq> m_width ?s * m_height ?s * 3"
    using assms by (simp add: Init_config_fields)
  have I: "Init d config (s, w) = (if m_fbFd ?s = 0 then (0, ?s, ?w) else Init_get d (?s, ?w))"
    by (simp add: Init_def Let_def)
  have 1: "fst (Init d config (s, w)) = 0"
    using assms by (rule Init_mismatch)
  have 2: "last (w_log (snd (snd (Init d config (s, w))))) = call_close (d_open d (''/dev/'' @ fb_device config))"
    if "d_open d (''/dev/'' @ fb_device config) \<noteq> 0"
    using that Init_get_closes[OF mm, of d ?w] by (simp add: I dev)
  have 3: "w_mode (snd (snd (Init d config (s, w)))) = w_mode w"
    if "\<forall>v. d_finfo d v \<noteq> None" "d_put_vinfo_ok d (w_mode w)"
    using that Init_get_mode[OF mm, of d ?w] by (simp add: I do_call_simps)
  from 1 2 3 show ?thesis by blast
qed

lemma Init_map_screenSize: "screenSize_ok (fst (snd (Init_map d (s, w))))"
  by (simp add: Init_map_def Let_def screenSize_ok_def)

lemma Init_check_screenSize:
  "fst (Init_check d (s, w)) \<noteq> 0 \<Longrightarrow> screenSize_ok (fst (snd (Init_check d (s, w))))"
  by (auto simp: Init_check_def Let_def Init_map_screenSize split: option.splits if_splits)

lemma Init_put_screenSize:
  "fst (Init_put d (s, w)) \<noteq> 0 \<Longrightarrow> screenSize_ok (fst (snd (Init_put d (s, w))))"
  by (auto simp: Init_put_def Let_def Init_check_screenSize split: if_splits)

lemma Init_get_screenSize:
  "fst (Init_get d (s, w)) \<noteq> 0 \<Longrightarrow> screenSize_ok (fst (snd (Init_get d (s, w))))"
  by (auto simp: Init_get_def Let_def Init_put_screenSize split: if_splits)

lemma Init_screenSize:
  "fst (Init d config (s, w)) \<noteq> 0 \<Longrightarrow> screenSize_ok (fst (snd (Init d config (s, w))))"
  by (auto simp: Init_def Let_def Init_get_screenSize split: if_splits)

lemma example_Init:
  "fst (Init example_driver example_fb_config (FBMatrixOutput 0 48, example_world)) = 1"
  "m_isDoubleBuffered (fst example_fb)"
  "m_topFrame (fst example_fb)"
  "m_screenSize (fst example_fb) = 48"
  "yres (m_vInfo (fst example_fb)) = 4"
  "yoffset (w_mode (snd example_fb)) = 0"
  "w_log (snd example_fb) =
     [call_open ''/dev/fb1'', FBIOGET_VSCREENINFO,
      FBIOPUT_VSCREENINFO (example_mode\<lparr>xres := 4, yres := 4, xres_virtual := 4, yres_virtual := 8\<rparr>),
      FBIOGET_FSCREENINFO, call_mmap 96]"
  by (simp_all add: example_fb_def Init_def Init_config_def Init_get_def Init_mode_def Init_put_def
      Init_check_def Init_map_def Let_def put_vinfo_def do_call_def example_driver_def
      example_fb_config_def example_world_def example_mode_def FBMatrixOutput_def)

lemma example_single_Init:
  "fst (Init single_buffer_driver example_fb_config (FBMatrixOutput 0 48, example_world)) = 1"
  "\<not> m_isDoubleBuffered (fst example_single_fb)"
  "m_screenSize (fst example_single_fb) = 48"
  by (simp_all add: example_single_fb_def Init_def Init_config_def Init_get_def Init_mode_def Init_put_def
      Init_check_def Init_map_def Let_def put_vinfo_def do_call_def example_driver_def
      single_buffer_driver_def example_fb_config_def example_world_def example_mode_def FBMatrixOutput_def)

subsection \<open>A driver that accepts every call\<close>

lemma Init_map_accepts:
  assumes "\<forall>len. d_mmap_ok d len"
  shows "fst (Init_map d (s, w)) = d_base_Init d"
  using assms by (simp add: Init_map_def Let_def)

lemma Init_check_accepts:
  assumes "\<forall>len. d_mmap_ok d len" and "\<forall>v. d_finfo d v \<noteq> None"
    and "m_device s \<noteq> ''/dev/fb0''" and "m_channelCount s = m_width s * m_height s * 3"
  shows "fst (Init_check d (s, w)) = d_base_Init d"
proof -
  from assms(2) have "d_finfo d (w_mode (do_call FBIOGET_FSCREENINFO w)) \<noteq> None"
    by (rule spec)
  then obtain fi where fi: "d_finfo d (w_mode (do_call FBIOGET_FSCREENINFO w)) = Some fi"
    by auto
  have "Init_check d (s, w) = Init_map d (s\<lparr>m_fInfo := fi\<rparr>, do_call FBIOGET_FSCREENINFO w)"
    using assms(3,4) fi by (simp add: Init_check_def Let_def)
  then show ?thesis using Init_map_accepts[OF assms(1)] by simp
qed

lemma Init_mode_device:
  "m_device (Init_mode s) = m_device s"
  by (simp add: Init_mode_def Let_def)

lemma Init_put_accepts:
  assumes "\<forall>len. d_mmap_ok d len" and "\<forall>v. d_finfo d v \<noteq> None" and "\<forall>v. d_put_vinfo_ok d v"
    and "m_device s \<noteq> ''/dev/fb0''" and "m_channelCount s = m_width s * m_height s * 3"
  shows "fst (Init_put d (s, w)) = d_base_Init d"
  using assms by (simp add: Init_put_def Let_def put_vinfo_simps Init_check_accepts)

lemma Init_get_accepts:
  assumes "\<forall>len. d_mmap_ok d len" and "\<forall>v. d_finfo d v \<noteq> None" and "\<forall>v. d_put_vinfo_ok d v"
    and "d_get_vinfo_ok d" and "bits_per_pixel (w_mode w) = 24"
    and "m_device s \<noteq> ''/dev/fb0''" and "m_channelCount s = m_width s * m_height s * 3"
  shows "fst (Init_get d (s, w)) = d_base_Init d"
  using assms
  by (simp add: Init_get_def Let_def do_call_simps Init_put_accepts Init_mode_fields Init_mode_device)

lemma Init_accepts:
  assumes "\<forall>len. d_mmap_ok d len" and "\<forall>v. d_finfo d v \<noteq> None" and "\<forall>v. d_put_vinfo_ok d v"
    and "d_get_vinfo_ok d" and "bits_per_pixel (w_mode w) = 24"
    and "d_open d (''/dev/'' @ fb_device config) \<noteq> 0" and "fb_device config \<noteq> ''fb0''"
    and "m_channelCount s = fb_width config * fb_height config * 3"
  shows "fst (Init d config (s, w)) = d_base_Init d"
proof -
  let ?s = "(Init_config config s)\<lparr>m_fbFd := d_open d (m_device (Init_config config s))\<rparr>"
  let ?w = "do_call (call_open (m_device (Init_config config s))) w"
  have dev: "m_device (Init_config config s) = ''/dev/'' @ fb_device config"
    by (simp add: Init_config_def Let_def)
  have I: "Init d config (s, w) = Init_get d (?s, ?w)"
    using assms(6) by (simp add: Init_def Let_def dev)
  have "fst (Init_get d (?s, ?w)) = d_base_Init d"
    using assms(1-5,7,8) by (intro Init_get_accepts) (simp_all add: do_call_simps dev Init_config_fields)
  then show ?thesis by (simp add: I)
qed

subsection \<open>The comparison of line 192 and the integers\<close>

lemma channel_count_eq_iff:
  fixes c a b :: "32 word"
  assumes "0 \<le> sint a * sint b * 3" and "sint a * sint b * 3 \<le> 2147483647"
  shows "(c = a * b * 3) = (uint c = sint a * sint b * 3)"
proof -
  have w: "(word_of_int (sint a * sint b * 3) :: 32 word) = a * b * 3"
    by simp
  have "uint (word_of_int (sint a * sint b * 3) :: 32 word) = (sint a * sint b * 3) mod 4294967296"
    by (simp only: uint_word_of_int) simp
  also have "\<dots> = sint a * sint b * 3"
    using assms by (intro mod_pos_pos_trivial) simp_all
  finally have u: "uint (a * b * 3) = sint a * sint b * 3"
    unfolding w .
  show ?thesis unfolding word_uint_eq_iff u ..
qed

subsection \<open>The framebuffer sink's properties\<close>

text \<open>
  Claim C7, as amended. Let \<open>Init\<close> succeed on a newly constructed sink and let any number
  \<open>n\<close> of \<open>SendData\<close> calls follow, each on whatever frame was prepared. With double
  buffering, the next call copies the frame to byte offset 0 of the mapping when \<open>n\<close> is
  even and to offset \<open>m_screenSize\<close> when \<open>n\<close> is odd, and asks the driver to pan the
  display to row 0 or row \<open>yres\<close> accordingly, the half it has just written; the two
  offsets and the two rows are distinct when \<open>m_screenSize\<close> is not 0. When the driver
  carries out every pan, the display shows the half just written after the call, and
  from the second call on (\<open>n > 0\<close>) it shows the other half when the call starts.
  Without double buffering every call copies to offset 0 and leaves the display mode
  alone.
\<close>

theorem SendData_alternates:
  assumes "fst (Init d config (FBMatrixOutput sc cc, w0)) \<noteq> 0"
    and "(s1, w1) = snd (Init d config (FBMatrixOutput sc cc, w0))"
    and "(s, w) = SendData_frames d fs (s1, w1)"
  shows "(m_isDoubleBuffered s1 \<longrightarrow>
           w_log (snd (snd (SendData d (s, w)))) =
             w_log w @ [call_memcpy (if even (length fs) then 0 else unat (m_screenSize s1))
                          (unat (m_screenSize s1)),
                        FBIOPAN_DISPLAY (m_vInfo (fst (snd (SendData d (s, w)))))]
         \<and> yoffset (m_vInfo (fst (snd (SendData d (s, w)))))
             = (if even (length fs) then 0 else yres (m_vInfo s1))
         \<and> (m_screenSize s1 \<noteq> 0 \<longrightarrow> unat (m_screenSize s1) \<noteq> 0 \<and> yres (m_vInfo s1) \<noteq> 0)
         \<and> ((\<forall>v. d_pan_ok d v) \<longrightarrow>
               yoffset (w_mode (snd (snd (SendData d (s, w)))))
                 = (if even (length fs) then 0 else yres (m_vInfo s1))
             \<and> (fs \<noteq> [] \<longrightarrow>
                  yoffset (w_mode w) = (if even (length fs) then yres (m_vInfo s1) else 0))))
       \<and> (\<not> m_isDoubleBuffered s1 \<longrightarrow>
           w_log (snd (snd (SendData d (s, w)))) = w_log w @ [call_memcpy 0 (unat (m_screenSize s1))]
         \<and> w_mode (snd (snd (SendData d (s, w)))) = w_mode w)"
proof -
  have s1: "s1 = fst (snd (Init d config (FBMatrixOutput sc cc, w0)))"
    using assms(2) by (metis fst_conv)
  have top1: "m_topFrame s1"
    by (simp add: s1 Init_fields FBMatrixOutput_def)
  have s: "s = fst (SendData_frames d fs (s1, w1))" and w: "w = snd (SendData_frames d fs (s1, w1))"
    using assms(3) by (metis fst_conv, metis snd_conv)
  note F = SendData_frames_fields[of d fs s1 w1, folded s]
  have top: "m_topFrame s = even (length fs)" using F top1 by simp
  have size: "m_screenSize s = m_screenSize s1" and yr: "yres (m_vInfo s) = yres (m_vInfo s1)"
    and db: "m_isDoubleBuffered s = m_isDoubleBuffered s1"
    using F by simp_all
  have ok: "screenSize_ok s1"
    unfolding s1 using assms(1) by (rule Init_screenSize)
  have nz: "unat (m_screenSize s1) \<noteq> 0 \<and> yres (m_vInfo s1) \<noteq> 0" if "m_screenSize s1 \<noteq> 0"
    using that ok unat_gt_0[of "m_screenSize s1"] by (auto simp: screenSize_ok_def)
  have disp: "yoffset (w_mode w) = (if even (length fs) then yres (m_vInfo s1) else 0)"
    if "m_isDoubleBuffered s1" "fs \<noteq> []" "\<forall>v. d_pan_ok d v"
    using SendData_frames_displayed[OF that, of w1] top1 by (simp add: w)
  have dbl: "w_log (snd (snd (SendData d (s, w)))) =
             w_log w @ [call_memcpy (if even (length fs) then 0 else unat (m_screenSize s1))
                          (unat (m_screenSize s1)),
                        FBIOPAN_DISPLAY (m_vInfo (fst (snd (SendData d (s, w)))))]
         \<and> yoffset (m_vInfo (fst (snd (SendData d (s, w)))))
             = (if even (length fs) then 0 else yres (m_vInfo s1))"
    if "m_isDoubleBuffered s1"
    using SendData_double(1,2)[of s d w] that by (simp add: db top size yr)
  have pan: "yoffset (w_mode (snd (snd (SendData d (s, w)))))
             = (if even (length fs) then 0 else yres (m_vInfo s1))"
    if "m_isDoubleBuffered s1" "\<forall>v. d_pan_ok d v"
    using SendData_double(3)[of s d w] that by (simp add: db top size yr)
  have sgl: "w_log (snd (snd (SendData d (s, w)))) = w_log w @ [call_memcpy 0 (unat (m_screenSize s1))]
         \<and> w_mode (snd (snd (SendData d (s, w)))) = w_mode w"
    if "\<not> m_isDoubleBuffered s1"
    using SendData_single[of s d w] that by (simp add: db size)
  from dbl pan disp nz sgl show ?thesis by blast
qed

theorem SendData_alternates_witness:
  "fst (Init example_driver example_fb_config (FBMatrixOutput 0 48, example_world)) \<noteq> 0
   \<and> m_isDoubleBuffered (fst example_fb)
   \<and> m_screenSize (fst example_fb) \<noteq> 0
   \<and> (\<forall>v. d_pan_ok example_driver v)
   \<and> [[]] \<noteq> ([] :: byte list list)
   \<and> yoffset (w_mode (snd (SendData_frames example_driver [[]] example_fb))) = 0
   \<and> yoffset (w_mode (snd (snd (SendData example_driver (SendData_frames example_driver [[]] example_fb))))) = 4
   \<and> yoffset (m_vInfo (fst (snd (SendData example_driver (SendData_frames example_driver [[]] example_fb))))) = 4
   \<and> drop (length (w_log (snd (SendData_frames example_driver [[]] example_fb))))
        (w_log (snd (snd (SendData example_driver (SendData_frames example_driver [[]] example_fb)))))
       = [call_memcpy 48 48,
          FBIOPAN_DISPLAY (m_vInfo (fst (snd (SendData example_driver
             (SendData_frames example_driver [[]] example_fb)))))]
   \<and> fst (Init single_buffer_driver example_fb_config (FBMatrixOutput 0 48, example_world)) \<noteq> 0
   \<and> \<not> m_isDoubleBuffered (fst example_single_fb)
   \<and> drop (length (w_log (snd (SendData_frames single_buffer_driver [[]] example_single_fb))))
        (w_log (snd (snd (SendData single_buffer_driver
           (SendData_frames single_buffer_driver [[]] example_single_fb)))))
       = [call_memcpy 0 48]"
proof -
  let ?sw = "SendData_frames example_driver [[]] example_fb"
  let ?sw' = "SendData_frames single_buffer_driver [[]] example_single_fb"
  have i: "fst (Init example_driver example_fb_config (FBMatrixOutput 0 48, example_world)) \<noteq> 0"
    by (simp add: example_Init)
  have e: "(fst example_fb, snd example_fb)
           = snd (Init example_driver example_fb_config (FBMatrixOutput 0 48, example_world))"
    by (simp add: example_fb_def)
  have f: "(fst ?sw, snd ?sw) = SendData_frames example_driver [[]] (fst example_fb, snd example_fb)"
    by simp
  have d: "m_isDoubleBuffered (fst example_fb)" and z: "m_screenSize (fst example_fb) \<noteq> 0"
    by (simp_all add: example_Init)
  have p: "\<forall>v. d_pan_ok example_driver v"
    by (simp add: example_driver_def)
  have n: "[[]] \<noteq> ([] :: byte list list)" by simp
  note T = SendData_alternates[OF i e f]
  from T d p have 1: "yoffset (w_mode (snd ?sw)) = 0"
    "yoffset (w_mode (snd (snd (SendData example_driver ?sw)))) = 4"
    "yoffset (m_vInfo (fst (snd (SendData example_driver ?sw)))) = 4"
    by (simp_all add: example_Init)
  from T d have "w_log (snd (snd (SendData example_driver ?sw))) =
      w_log (snd ?sw) @
        [call_memcpy (if even (length [[] :: byte list]) then 0 else unat (m_screenSize (fst example_fb)))
            (unat (m_screenSize (fst example_fb))),
         FBIOPAN_DISPLAY (m_vInfo (fst (snd (SendData example_driver ?sw))))]"
    by simp
  then have 2: "drop (length (w_log (snd ?sw))) (w_log (snd (snd (SendData example_driver ?sw))))
       = [call_memcpy 48 48, FBIOPAN_DISPLAY (m_vInfo (fst (snd (SendData example_driver ?sw))))]"
    by (simp add: example_Init)
  have i': "fst (Init single_buffer_driver example_fb_config (FBMatrixOutput 0 48, example_world)) \<noteq> 0"
    by (simp add: example_single_Init)
  have e': "(fst example_single_fb, snd example_single_fb)
           = snd (Init single_buffer_driver example_fb_config (FBMatrixOutput 0 48, example_world))"
    by (simp add: example_single_fb_def)
  have f': "(fst ?sw', snd ?sw')
           = SendData_frames single_buffer_driver [[]] (fst example_single_fb, snd example_single_fb)"
    by simp
  have d': "\<not> m_isDoubleBuffered (fst example_single_fb)"
    by (simp add: example_single_Init)
  from SendData_alternates[OF i' e' f'] d'
  have "w_log (snd (snd (SendData single_buffer_driver ?sw'))) =
      w_log (snd ?sw') @ [call_memcpy 0 (unat (m_screenSize (fst example_single_fb)))]"
    by simp
  then have 3: "drop (length (w_log (snd ?sw'))) (w_log (snd (snd (SendData single_buffer_driver ?sw'))))
       = [call_memcpy 0 48]"
    by (simp add: example_single_Init)
  from i d z p n 1 2 i' d' 3 show ?thesis by (intro conjI)
qed

text \<open>
  Claim C7 as stated fails at the first call: after \<open>Init\<close> the display's \<open>yoffset\<close>
  is the one the device had (0 here), \<open>m_topFrame\<close> is true, and the first \<open>SendData\<close>
  copies the frame to offset 0, the half on display, before it pans there.
\<close>

theorem first_SendData_writes_displayed_half:
  "fst (Init example_driver example_fb_config (FBMatrixOutput 0 48, example_world)) \<noteq> 0
   \<and> example_fb = snd (Init example_driver example_fb_config (FBMatrixOutput 0 48, example_world))
   \<and> m_isDoubleBuffered (fst example_fb)
   \<and> yoffset (w_mode (snd example_fb)) = 0
   \<and> yoffset (m_vInfo (fst (snd (SendData example_driver example_fb)))) = 0
   \<and> drop (length (w_log (snd example_fb))) (w_log (snd (snd (SendData example_driver example_fb))))
       = [call_memcpy 0 48, FBIOPAN_DISPLAY (m_vInfo (fst (snd (SendData example_driver example_fb))))]"
proof -
  have d: "m_isDoubleBuffered (fst example_fb)" and t: "m_topFrame (fst example_fb)"
    by (simp_all add: example_Init)
  have "yoffset (m_vInfo (fst (snd (SendData example_driver example_fb)))) = 0"
    using SendData_double(2)[OF d, of example_driver "snd example_fb"] t by simp
  moreover have "drop (length (w_log (snd example_fb)))
        (w_log (snd (snd (SendData example_driver example_fb))))
       = [call_memcpy 0 48, FBIOPAN_DISPLAY (m_vInfo (fst (snd (SendData example_driver example_fb))))]"
    using SendData_double(1)[OF d, of example_driver "snd example_fb"] t by (simp add: example_Init)
  ultimately show ?thesis
    using d by (simp add: example_Init) (simp add: example_fb_def)
qed

text \<open>
  The two provisos of the amended claim are needed. On a driver that refuses every pan
  away from row 0 the display stays at row 0, and the third call copies to offset 0, the
  half on display.
\<close>

lemma refused_pan_writes_displayed_half:
  "fst (Init fixed_display_driver example_fb_config (FBMatrixOutput 0 48, example_world)) \<noteq> 0
   \<and> m_isDoubleBuffered (fst example_fixed_fb)
   \<and> yoffset (w_mode (snd (SendData_frames fixed_display_driver [[], []] example_fixed_fb))) = 0
   \<and> drop (length (w_log (snd (SendData_frames fixed_display_driver [[], []] example_fixed_fb))))
        (w_log (snd (snd (SendData fixed_display_driver
           (SendData_frames fixed_display_driver [[], []] example_fixed_fb)))))
       = [call_memcpy 0 48,
          FBIOPAN_DISPLAY (m_vInfo (fst (snd (SendData fixed_display_driver
             (SendData_frames fixed_display_driver [[], []] example_fixed_fb)))))]"
  by (simp add: example_fixed_fb_def Init_def Init_config_def Init_get_def Init_mode_def Init_put_def
      Init_check_def Init_map_def Let_def put_vinfo_def do_call_def example_driver_def
      fixed_display_driver_def example_fb_config_def example_world_def example_mode_def
      FBMatrixOutput_def SendData_def memcpy_at_def)

text \<open>
  \<open>Init\<close> succeeds on a matrix of no pixel, with double buffering and \<open>m_screenSize\<close>
  0: then both halves start at offset 0, and consecutive calls write the same place.
\<close>

lemma empty_matrix_halves_coincide:
  "fst (Init example_driver empty_fb_config (FBMatrixOutput 0 0, example_world)) \<noteq> 0
   \<and> m_isDoubleBuffered (fst example_empty_fb)
   \<and> m_screenSize (fst example_empty_fb) = 0
   \<and> drop (length (w_log (snd example_empty_fb)))
        (w_log (snd (snd (SendData example_driver example_empty_fb))))
       = [call_memcpy 0 0, FBIOPAN_DISPLAY (m_vInfo (fst (snd (SendData example_driver example_empty_fb))))]
   \<and> drop (length (w_log (snd (SendData_frames example_driver [[]] example_empty_fb))))
        (w_log (snd (snd (SendData example_driver (SendData_frames example_driver [[]] example_empty_fb)))))
       = [call_memcpy 0 0,
          FBIOPAN_DISPLAY (m_vInfo (fst (snd (SendData example_driver
             (SendData_frames example_driver [[]] example_empty_fb)))))]"
  by (simp add: example_empty_fb_def Init_def Init_config_def Init_get_def Init_mode_def Init_put_def
      Init_check_def Init_map_def Let_def put_vinfo_def do_call_def example_driver_def
      empty_fb_config_def example_fb_config_def example_world_def example_mode_def
      FBMatrixOutput_def SendData_def memcpy_at_def)

text \<open>
  Claim C10, as amended. The check of line 192 compares 32-bit unsigned values: the
  \<open>int\<close> product \<open>width * height * 3\<close> is converted to \<open>unsigned int\<close>. When
  \<open>m_channelCount\<close> differs from the product as such a value, \<open>Init\<close> returns 0; when
  \<open>open\<close> gave a descriptor other than 0 (the test of line 122), the last call made is
  the \<open>close\<close> of that descriptor; and if the driver answers FBIOGET_FSCREENINFO and
  accepts the original mode, the display is in its original mode on return. At the check
  itself (second part) the calls are FBIOPUT_VSCREENINFO with the original mode, then
  \<open>close\<close>. Hence (third part) a successful \<open>Init\<close> leaves a sink with
  \<open>m_channelCount = m_width * m_height * 3\<close> as 32-bit values. When the product is
  not negative and fits an \<open>int\<close> (fourth part), both hold of the integers: \<open>Init\<close>
  returns 0 when the channel count is not the product, and after a successful \<open>Init\<close>
  the channel count is the product.
\<close>

theorem Init_channel_count_check:
  "(m_channelCount s \<noteq> fb_width config * fb_height config * 3 \<longrightarrow>
      fst (Init d config (s, w)) = 0
    \<and> (d_open d (''/dev/'' @ fb_device config) \<noteq> 0 \<longrightarrow>
         last (w_log (snd (snd (Init d config (s, w)))))
           = call_close (d_open d (''/dev/'' @ fb_device config)))
    \<and> ((\<forall>v. d_finfo d v \<noteq> None) \<and> d_put_vinfo_ok d (w_mode w) \<longrightarrow>
         w_mode (snd (snd (Init d config (s, w)))) = w_mode w))
   \<and> (d_finfo d (w_mode w1) = Some fi \<and> m_channelCount s1 \<noteq> m_width s1 * m_height s1 * 3 \<longrightarrow>
        fst (Init_check d (s1, w1)) = 0
      \<and> w_log (snd (snd (Init_check d (s1, w1)))) =
          w_log w1 @ [FBIOGET_FSCREENINFO, FBIOPUT_VSCREENINFO (m_vInfoOrig s1), call_close (m_fbFd s1)])
   \<and> (fst (Init d config (s, w)) \<noteq> 0 \<longrightarrow>
        m_channelCount (fst (snd (Init d config (s, w))))
          = m_width (fst (snd (Init d config (s, w)))) * m_height (fst (snd (Init d config (s, w)))) * 3
      \<and> m_channelCount (fst (snd (Init d config (s, w)))) = m_channelCount s
      \<and> m_width (fst (snd (Init d config (s, w)))) = fb_width config
      \<and> m_height (fst (snd (Init d config (s, w)))) = fb_height config)
   \<and> (0 \<le> sint (fb_width config) * sint (fb_height config) * 3
        \<and> sint (fb_width config) * sint (fb_height config) * 3 \<le> 2147483647 \<longrightarrow>
        (uint (m_channelCount s) \<noteq> sint (fb_width config) * sint (fb_height config) * 3 \<longrightarrow>
           fst (Init d config (s, w)) = 0)
      \<and> (fst (Init d config (s, w)) \<noteq> 0 \<longrightarrow>
           uint (m_channelCount (fst (snd (Init d config (s, w)))))
             = sint (m_width (fst (snd (Init d config (s, w)))))
               * sint (m_height (fst (snd (Init d config (s, w))))) * 3))"
proof -
  have A: "fst (Init d config (s, w)) = 0
    \<and> (d_open d (''/dev/'' @ fb_device config) \<noteq> 0 \<longrightarrow>
         last (w_log (snd (snd (Init d config (s, w)))))
           = call_close (d_open d (''/dev/'' @ fb_device config)))
    \<and> ((\<forall>v. d_finfo d v \<noteq> None) \<and> d_put_vinfo_ok d (w_mode w) \<longrightarrow>
         w_mode (snd (snd (Init d config (s, w)))) = w_mode w)"
    if "m_channelCount s \<noteq> fb_width config * fb_height config * 3"
    using that by (rule Init_rejects_wrong_channel_count)
  have B: "fst (Init_check d (s1, w1)) = 0
      \<and> w_log (snd (snd (Init_check d (s1, w1)))) =
          w_log w1 @ [FBIOGET_FSCREENINFO, FBIOPUT_VSCREENINFO (m_vInfoOrig s1), call_close (m_fbFd s1)]"
    if "d_finfo d (w_mode w1) = Some fi" "m_channelCount s1 \<noteq> m_width s1 * m_height s1 * 3"
    using Init_check_restores(1,2)[OF that] by simp
  have C: "m_channelCount (fst (snd (Init d config (s, w))))
          = m_width (fst (snd (Init d config (s, w)))) * m_height (fst (snd (Init d config (s, w)))) * 3"
    if "fst (Init d config (s, w)) \<noteq> 0"
    using that by (rule Init_success_channel_count)
  have D: "(m_channelCount s = fb_width config * fb_height config * 3)
         = (uint (m_channelCount s) = sint (fb_width config) * sint (fb_height config) * 3)"
    if "0 \<le> sint (fb_width config) * sint (fb_height config) * 3"
      "sint (fb_width config) * sint (fb_height config) * 3 \<le> 2147483647"
    using that by (rule channel_count_eq_iff)
  have E: "fst (Init d config (s, w)) = 0"
    if "0 \<le> sint (fb_width config) * sint (fb_height config) * 3"
      "sint (fb_width config) * sint (fb_height config) * 3 \<le> 2147483647"
      "uint (m_channelCount s) \<noteq> sint (fb_width config) * sint (fb_height config) * 3"
    using A D[OF that(1,2)] that(3) by blast
  have F: "uint (m_channelCount (fst (snd (Init d config (s, w)))))
             = sint (m_width (fst (snd (Init d config (s, w)))))
               * sint (m_height (fst (snd (Init d config (s, w))))) * 3"
    if "0 \<le> sint (fb_width config) * sint (fb_height config) * 3"
      "sint (fb_width config) * sint (fb_height config) * 3 \<le> 2147483647"
      "fst (Init d config (s, w)) \<noteq> 0"
    using E[OF that(1,2)] that(3) by (auto simp: Init_fields)
  have A': "m_channelCount s \<noteq> fb_width config * fb_height config * 3 \<longrightarrow>
      fst (Init d config (s, w)) = 0
    \<and> (d_open d (''/dev/'' @ fb_device config) \<noteq> 0 \<longrightarrow>
         last (w_log (snd (snd (Init d config (s, w)))))
           = call_close (d_open d (''/dev/'' @ fb_device config)))
    \<and> ((\<forall>v. d_finfo d v \<noteq> None) \<and> d_put_vinfo_ok d (w_mode w) \<longrightarrow>
         w_mode (snd (snd (Init d config (s, w)))) = w_mode w)"
    using A by blast
  have B': "d_finfo d (w_mode w1) = Some fi \<and> m_channelCount s1 \<noteq> m_width s1 * m_height s1 * 3 \<longrightarrow>
        fst (Init_check d (s1, w1)) = 0
      \<and> w_log (snd (snd (Init_check d (s1, w1)))) =
          w_log w1 @ [FBIOGET_FSCREENINFO, FBIOPUT_VSCREENINFO (m_vInfoOrig s1), call_close (m_fbFd s1)]"
    using B by blast
  have C': "fst (Init d config (s, w)) \<noteq> 0 \<longrightarrow>
        m_channelCount (fst (snd (Init d config (s, w))))
          = m_width (fst (snd (Init d config (s, w)))) * m_height (fst (snd (Init d config (s, w)))) * 3
      \<and> m_channelCount (fst (snd (Init d config (s, w)))) = m_channelCount s
      \<and> m_width (fst (snd (Init d config (s, w)))) = fb_width config
      \<and> m_height (fst (snd (Init d config (s, w)))) = fb_height config"
    using C by (simp add: Init_fields)
  have E': "0 \<le> sint (fb_width config) * sint (fb_height config) * 3
        \<and> sint (fb_width config) * sint (fb_height config) * 3 \<le> 2147483647 \<longrightarrow>
        (uint (m_channelCount s) \<noteq> sint (fb_width config) * sint (fb_height config) * 3 \<longrightarrow>
           fst (Init d config (s, w)) = 0)
      \<and> (fst (Init d config (s, w)) \<noteq> 0 \<longrightarrow>
           uint (m_channelCount (fst (snd (Init d config (s, w)))))
             = sint (m_width (fst (snd (Init d config (s, w)))))
               * sint (m_height (fst (snd (Init d config (s, w))))) * 3)"
    using E F by blast
  from A' B' C' E' show ?thesis by (intro conjI)
qed

theorem Init_channel_count_check_witness:
  "m_channelCount (FBMatrixOutput 0 10) \<noteq> fb_width example_fb_config * fb_height example_fb_config * 3
   \<and> d_open example_driver (''/dev/'' @ fb_device example_fb_config) \<noteq> 0
   \<and> (\<forall>v. d_finfo example_driver v \<noteq> None)
   \<and> d_put_vinfo_ok example_driver (w_mode example_world)
   \<and> fst (Init example_driver example_fb_config (FBMatrixOutput 0 10, example_world)) = 0
   \<and> last (w_log (snd (snd (Init example_driver example_fb_config (FBMatrixOutput 0 10, example_world)))))
       = call_close 3
   \<and> w_mode (snd (snd (Init example_driver example_fb_config (FBMatrixOutput 0 10, example_world))))
       = w_mode example_world
   \<and> w_log (snd (snd (Init example_driver example_fb_config (FBMatrixOutput 0 10, example_world))))
       = [call_open ''/dev/fb1'', FBIOGET_VSCREENINFO,
          FBIOPUT_VSCREENINFO (example_mode\<lparr>xres := 4, yres := 4, xres_virtual := 4, yres_virtual := 8\<rparr>),
          FBIOGET_FSCREENINFO, FBIOPUT_VSCREENINFO example_mode, call_close 3]
   \<and> fst (Init example_driver example_fb_config (FBMatrixOutput 0 48, example_world)) \<noteq> 0
   \<and> m_channelCount (fst example_fb) = 4 * 4 * 3
   \<and> 0 \<le> sint (fb_width example_fb_config) * sint (fb_height example_fb_config) * 3
   \<and> sint (fb_width example_fb_config) * sint (fb_height example_fb_config) * 3 \<le> 2147483647
   \<and> uint (m_channelCount (fst example_fb)) = 48
   \<and> sint (m_width (fst example_fb)) * sint (m_height (fst example_fb)) * 3 = 48"
proof -
  have h: "m_channelCount (FBMatrixOutput 0 10) \<noteq> fb_width example_fb_config * fb_height example_fb_config * 3"
    "d_open example_driver (''/dev/'' @ fb_device example_fb_config) \<noteq> 0"
    "\<forall>v. d_finfo example_driver v \<noteq> None"
    "d_put_vinfo_ok example_driver (w_mode example_world)"
    "d_open example_driver (''/dev/'' @ fb_device example_fb_config) = 3"
    by (simp_all add: FBMatrixOutput_def example_fb_config_def example_driver_def)
  have b: "0 \<le> sint (fb_width example_fb_config) * sint (fb_height example_fb_config) * 3"
    "sint (fb_width example_fb_config) * sint (fb_height example_fb_config) * 3 \<le> 2147483647"
    "sint (fb_width example_fb_config) * sint (fb_height example_fb_config) * 3 = 48"
    by (simp_all add: example_fb_config_def)
  have i: "fst (Init example_driver example_fb_config (FBMatrixOutput 0 48, example_world)) \<noteq> 0"
    by (simp add: example_Init)
  from Init_channel_count_check[of "FBMatrixOutput 0 10" example_fb_config example_driver example_world]
  have 1: "fst (Init example_driver example_fb_config (FBMatrixOutput 0 10, example_world)) = 0"
    "last (w_log (snd (snd (Init example_driver example_fb_config (FBMatrixOutput 0 10, example_world)))))
       = call_close 3"
    "w_mode (snd (snd (Init example_driver example_fb_config (FBMatrixOutput 0 10, example_world))))
       = w_mode example_world"
    using h by simp_all
  have l: "w_log (snd (snd (Init example_driver example_fb_config (FBMatrixOutput 0 10, example_world))))
       = [call_open ''/dev/fb1'', FBIOGET_VSCREENINFO,
          FBIOPUT_VSCREENINFO (example_mode\<lparr>xres := 4, yres := 4, xres_virtual := 4, yres_virtual := 8\<rparr>),
          FBIOGET_FSCREENINFO, FBIOPUT_VSCREENINFO example_mode, call_close 3]"
    by (simp add: Init_def Init_config_def Init_get_def Init_mode_def Init_put_def
      Init_check_def Let_def put_vinfo_def do_call_def example_driver_def
      example_fb_config_def example_world_def example_mode_def FBMatrixOutput_def)
  note T = Init_channel_count_check[of "FBMatrixOutput 0 48" example_fb_config example_driver example_world]
  from T i have 2: "m_channelCount (fst example_fb) = 4 * 4 * 3"
    by (simp add: example_fb_def example_fb_config_def)
  from T i b(1,2) have "uint (m_channelCount (fst example_fb))
      = sint (m_width (fst example_fb)) * sint (m_height (fst example_fb)) * 3"
    unfolding example_fb_def by blast
  moreover from T i have "m_width (fst example_fb) = fb_width example_fb_config"
    "m_height (fst example_fb) = fb_height example_fb_config"
    unfolding example_fb_def by blast+
  ultimately have 3: "uint (m_channelCount (fst example_fb)) = 48"
    "sint (m_width (fst example_fb)) * sint (m_height (fst example_fb)) * 3 = 48"
    using b(3) by simp_all
  from h(1-4) 1 l i 2 b(1,2) 3 show ?thesis by (intro conjI)
qed

text \<open>
  Claim C10 as stated fails at the check itself. With width -1 and height 1 the product
  \<open>width * height * 3\<close> is -3, which the comparison of line 192 converts to the
  \<open>unsigned int\<close> 4294967293: a sink of 4294967293 channels passes the check, \<open>Init\<close>
  succeeds, and the channel count is not \<open>width * height * 3\<close>.
\<close>

theorem Init_accepts_converted_product:
  "sint (fb_width negative_fb_config) * sint (fb_height negative_fb_config) * 3 = - 3
   \<and> uint (m_channelCount (FBMatrixOutput 0 4294967293)) = 4294967293
   \<and> fst (Init example_driver negative_fb_config (FBMatrixOutput 0 4294967293, example_world)) = 1
   \<and> uint (m_channelCount (fst (snd
        (Init example_driver negative_fb_config (FBMatrixOutput 0 4294967293, example_world)))))
       = 4294967293
   \<and> sint (m_width (fst (snd
        (Init example_driver negative_fb_config (FBMatrixOutput 0 4294967293, example_world)))))
       = - 1
   \<and> sint (m_height (fst (snd
        (Init example_driver negative_fb_config (FBMatrixOutput 0 4294967293, example_world)))))
       = 1"
proof -
  have c: "sint (fb_width negative_fb_config) * sint (fb_height negative_fb_config) * 3 = - 3"
    "uint (m_channelCount (FBMatrixOutput 0 4294967293)) = 4294967293"
    "sint (fb_width negative_fb_config) = - 1" "sint (fb_height negative_fb_config) = 1"
    by (simp_all add: negative_fb_config_def example_fb_config_def FBMatrixOutput_def)
  have "fst (Init example_driver negative_fb_config (FBMatrixOutput 0 4294967293, example_world))
        = d_base_Init example_driver"
    by (rule Init_accepts)
      (simp_all add: example_driver_def example_world_def example_mode_def negative_fb_config_def
        example_fb_config_def FBMatrixOutput_def)
  then have i: "fst (Init example_driver negative_fb_config (FBMatrixOutput 0 4294967293, example_world)) = 1"
    by (simp add: example_driver_def)
  show ?thesis
    using c i by (simp add: Init_fields)
qed

text \<open>
  The same happens where the product leaves the range of \<open>int\<close> and wraps: 40000 by
  40000 pixels need 4800000000 channels, and a sink of 505032704 channels is accepted.
\<close>

lemma Init_accepts_wrapped_product:
  "sint (fb_width huge_fb_config) * sint (fb_height huge_fb_config) * 3 = 4800000000
   \<and> uint (m_channelCount (FBMatrixOutput 0 505032704)) = 505032704
   \<and> fst (Init example_driver huge_fb_config (FBMatrixOutput 0 505032704, example_world)) = 1"
proof -
  have c: "sint (fb_width huge_fb_config) * sint (fb_height huge_fb_config) * 3 = 4800000000"
    "uint (m_channelCount (FBMatrixOutput 0 505032704)) = 505032704"
    by (simp_all add: huge_fb_config_def example_fb_config_def FBMatrixOutput_def)
  have "fst (Init example_driver huge_fb_config (FBMatrixOutput 0 505032704, example_world))
        = d_base_Init example_driver"
    by (rule Init_accepts)
      (simp_all add: example_driver_def example_world_def example_mode_def huge_fb_config_def
        example_fb_config_def FBMatrixOutput_def)
  then have i: "fst (Init example_driver huge_fb_config (FBMatrixOutput 0 505032704, example_world)) = 1"
    by (simp add: example_driver_def)
  show ?thesis
    using c i by simp
qed

section \<open>NetworkMonitor (src/NetworkMonitor.cpp)\<close>

text \<open>
  A callback is a \<open>std::function<void(NetEventType, int, const std::string&)>\<close>: what it
  does is a change of the world outside the monitor, of any type \<open>'w\<close>. The registry is
  a \<open>std::map<int, callback>\<close>, kept as the list of its entries in ascending key order,
  the order in which the map is iterated. \<open>curId\<close> is a 32-bit \<open>int\<close>: \<open>curId++\<close>
  wraps from 2147483647 to -2147483648 (\<open>int32\<close>).
\<close>

datatype NetEventType = NEW_LINK | DEL_LINK | NEW_ADDR | DEL_ADDR

type_synonym 'w callback = "NetEventType \<Rightarrow> int \<Rightarrow> string \<Rightarrow> 'w \<Rightarrow> 'w"

record 'w NetworkMonitor =
  callbacks :: "(int \<times> 'w callback) list"
  curId :: int























definition registered_ids :: "'w NetworkMonitor \<Rightarrow> int set" where
  "registered_ids m = fst ` set (callbacks m)"



text \<open>
  \<open>registry_sorted\<close> is what a \<open>std::map\<close> is: one entry for a key, in ascending key
  order. \<open>registry_ok\<close> is the registry while the counter has not wrapped: every key in
  use is below the next id. The monitor starts with no callback and \<open>curId\<close> 0 (the
  initialiser is in NetworkMonitor.h, not among the sources; only the examples depend on
  it).
\<close>

definition registry_sorted :: "'w NetworkMonitor \<Rightarrow> bool" where
  "registry_sorted m = sorted_wrt (<) (map fst (callbacks m))"

definition registry_ok :: "'w NetworkMonitor \<Rightarrow> bool" where
  "registry_ok m =
     (registry_sorted m \<and> (\<forall>k \<in> registered_ids m. k < curId m) \<and> in_int32 (curId m))"

definition INSTANCE :: "'w NetworkMonitor" where
  "INSTANCE = \<lparr>callbacks = [], curId = 0\<rparr>"







subsection \<open>The registry\<close>









lemma INSTANCE_ok: "registry_ok INSTANCE"
  by (simp add: registry_ok_def registry_sorted_def registered_ids_def in_int32_def INSTANCE_def)








subsection \<open>The handler\<close>



subsection \<open>The counter after \<open>2^32\<close> registrations\<close>







subsection \<open>The monitor's properties\<close>




end
